theory Spec2Isabelle
  imports Complex_Main
begin

section \<open>Gas price incrementor of the payments library (package transfer)\<close>

text \<open>
  A shallow embedding of \<^verbatim>\<open>transfer/incrementor.go\<close>. The incrementor drives three
  capabilities it is given as interfaces (storage, blockchain client, signers). Their
  answers are not determined by the incrementor, so each interface is a record of reply
  functions, indexed by the number of the call, and every call is appended to a log kept
  in the \<open>world\<close> record that the functions pass along.
\<close>

subsection \<open>Go error values\<close>

text \<open>
  \<^verbatim>\<open>core.ErrNonceTooHigh\<close>, \<^verbatim>\<open>core.ErrNonceTooLow\<close> and \<^verbatim>\<open>ethereum.NotFound\<close> are sentinel
  values compared by identity. \<open>ErrorString s\<close> is any other error without a wrapped
  cause whose message is \<open>s\<close> (an \<^verbatim>\<open>errors.New\<close> of another package, an RPC error, a
  \<^verbatim>\<open>fmt.Errorf\<close> without \<^verbatim>\<open>%w\<close>). \<open>Wrapped p e\<close> is \<^verbatim>\<open>fmt.Errorf(p + "%w", e)\<close>.
\<close>

datatype go_error =
    ErrNonceTooHigh
  | ErrNonceTooLow
  | NotFound
  | ErrorString string
  | Wrapped string go_error

fun Error :: "go_error \<Rightarrow> string" where
  "Error ErrNonceTooHigh = ''nonce too high''"
| "Error ErrNonceTooLow = ''nonce too low''"
| "Error NotFound = ''not found''"
| "Error (ErrorString s) = s"
| "Error (Wrapped p e) = p @ Error e"

fun errorsUnwrap :: "go_error \<Rightarrow> go_error option" where
  "errorsUnwrap (Wrapped p e) = Some e"
| "errorsUnwrap e = None"

fun errorsIs :: "go_error \<Rightarrow> go_error \<Rightarrow> bool" where
  "errorsIs (Wrapped p e) target = (Wrapped p e = target \<or> errorsIs e target)"
| "errorsIs e target = (e = target)"

subsection \<open>Data model\<close>

text \<open>
  \<^verbatim>\<open>types.Transaction\<close> of go-ethereum, reduced to the parts the incrementor reads or
  rebuilds. \<open>Sig\<close> is empty on an unsigned transaction.
\<close>

record eth_tx =
  Nonce :: nat
  GasPrice :: int
  Gas :: nat
  To :: string
  Value :: int
  Data :: string
  EthChainID :: int
  Sig :: string

text \<open>
  The declarations of \<^verbatim>\<open>Transaction\<close>, \<^verbatim>\<open>TransactionOpts\<close> and the state constants are
  not part of the sources at hand; the fields are the ones \<^verbatim>\<open>incrementor.go\<close> reads and
  writes. \<open>TxStateOther\<close> stands for any stored state value that is none of the four
  named ones; \<open>TxStateOther ''''\<close> is the state of the zero value \<^verbatim>\<open>Transaction{}\<close>.
  \<open>PriceMultiplier\<close> is the finite \<^verbatim>\<open>float64\<close> as an exact rational; \<open>MaxPrice\<close> is
  a \<^verbatim>\<open>*big.Int\<close>, \<open>None\<close> when nil. Durations are nanoseconds.
\<close>

datatype TransactionState =
    TxStatePending
  | TxStatePriceIncreased
  | TxStateFailed
  | TxStateSucceed
  | TxStateOther string

record TransactionOpts =
  Timeout :: int
  CheckInterval :: int
  IncreaseInterval :: int
  PriceMultiplier :: rat
  MaxPrice :: "int option"

record Transaction =
  UniqueID :: string
  ChainID :: int
  SenderAddressHex :: string
  State :: TransactionState
  Opts :: TransactionOpts
  LatestTx :: string

definition zeroOpts :: TransactionOpts where
  "zeroOpts = \<lparr>Timeout = 0, CheckInterval = 0, IncreaseInterval = 0,
     PriceMultiplier = 0, MaxPrice = None\<rparr>"

definition zeroTransaction :: Transaction where
  "zeroTransaction = \<lparr>UniqueID = [], ChainID = 0, SenderAddressHex = [],
     State = TxStateOther [], Opts = zeroOpts, LatestTx = []\<rparr>"

datatype BCTxStatus = StatusPending | StatusFailed | StatusSucceeded

record GasIncrementorConfig =
  PullInterval :: int
  MaxQueuePerSigner :: int

subsection \<open>Library code and helpers outside the sources at hand\<close>

text \<open>
  Functions the incrementor calls but that live in go-ethereum, in \<^verbatim>\<open>math/big\<close> or in
  the part of package \<^verbatim>\<open>transfer\<close> that is not at hand. They are pure (or, for
  \<open>isExpired\<close>, read only the clock) and are taken as parameters:
  \<^item> \<open>HexToAddress\<close>, \<open>Hex\<close>: \<^verbatim>\<open>common.HexToAddress\<close> and \<^verbatim>\<open>Address.Hex\<close>, over an
    address type \<open>'a\<close>;
  \<^item> \<open>mulFloatInt m p\<close>: the \<^verbatim>\<open>big.Float\<close> product of the multiplier \<open>m\<close> and the
    integer \<open>p\<close>, truncated by \<^verbatim>\<open>Int(nil)\<close>;
  \<^item> \<open>MarshalJSON\<close>, \<open>UnmarshalJSON\<close>, \<open>Hash\<close>: the methods of \<^verbatim>\<open>types.Transaction\<close>;
  \<^item> \<open>isExpired\<close>: what \<^verbatim>\<open>tx.isExpired()\<close> answers when the watcher asks.
\<close>

record 'a library =
  HexToAddress :: "string \<Rightarrow> 'a"
  Hex :: "'a \<Rightarrow> string"
  mulFloatInt :: "rat \<Rightarrow> int \<Rightarrow> int"
  MarshalJSON :: "eth_tx \<Rightarrow> go_error + string"
  UnmarshalJSON :: "string \<Rightarrow> go_error + eth_tx"
  Hash :: "eth_tx \<Rightarrow> string"
  isExpired :: "Transaction \<Rightarrow> bool"

subsection \<open>The capabilities and the incrementor\<close>

type_synonym SignatureFunc = "eth_tx \<Rightarrow> int \<Rightarrow> go_error + eth_tx"

text \<open>
  A Go map from addresses to signing functions, as an association list (a Go map has
  each key once; \<open>len\<close> is the length of the list).
\<close>

type_synonym 'a Signers = "('a \<times> SignatureFunc) list"

text \<open>
  The \<open>n\<close>-th call of a method (counted from 0, per method) with the given arguments is
  answered by the reply function of that method.
\<close>

record Storage =
  UpsertReply :: "nat \<Rightarrow> Transaction \<Rightarrow> go_error option"
  ToCheckReply :: "nat \<Rightarrow> string list \<Rightarrow> go_error + Transaction list"
  SenderQueueReply :: "nat \<Rightarrow> string \<Rightarrow> go_error + int"

record MultichainClient =
  ReceiptReply :: "nat \<Rightarrow> int \<Rightarrow> string \<Rightarrow> go_error + nat"
  SendReply :: "nat \<Rightarrow> int \<Rightarrow> eth_tx \<Rightarrow> go_error option"
  ByHashReply :: "nat \<Rightarrow> int \<Rightarrow> string \<Rightarrow> go_error + bool"

record 'a GasPriceIncremenetor =
  storage :: Storage
  bc :: MultichainClient
  cfg :: GasIncrementorConfig
  signers :: "'a Signers"

text \<open>
  Everything the incrementor changes or causes: the calls made so far on each method,
  the errors handed to the log function, the set of the syncer, and the watcher
  goroutines started.
\<close>

record world =
  upserts :: "Transaction list"
  toCheckCalls :: nat
  queueCalls :: nat
  receiptCalls :: nat
  broadcasts :: "(int \<times> eth_tx) list"
  byHashCalls :: nat
  logged :: "(Transaction \<times> go_error) list"
  watched :: "string set"
  spawned :: "Transaction list"

definition world0 :: world where
  "world0 = \<lparr>upserts = [], toCheckCalls = 0, queueCalls = 0, receiptCalls = 0,
     broadcasts = [], byHashCalls = 0, logged = [], watched = {}, spawned = []\<rparr>"

definition UpsertIncrementorTransaction ::
  "'a GasPriceIncremenetor \<Rightarrow> Transaction \<Rightarrow> world \<Rightarrow> go_error option \<times> world" where
  "UpsertIncrementorTransaction i tx w =
     (UpsertReply (storage i) (length (upserts w)) tx, w\<lparr>upserts := upserts w @ [tx]\<rparr>)"

definition GetIncrementorTransactionsToCheck ::
  "'a GasPriceIncremenetor \<Rightarrow> string list \<Rightarrow> world \<Rightarrow> (go_error + Transaction list) \<times> world" where
  "GetIncrementorTransactionsToCheck i possibleSigners w =
     (ToCheckReply (storage i) (toCheckCalls w) possibleSigners,
      w\<lparr>toCheckCalls := Suc (toCheckCalls w)\<rparr>)"

definition GetIncrementorSenderQueue ::
  "'a GasPriceIncremenetor \<Rightarrow> string \<Rightarrow> world \<Rightarrow> (go_error + int) \<times> world" where
  "GetIncrementorSenderQueue i sender w =
     (SenderQueueReply (storage i) (queueCalls w) sender, w\<lparr>queueCalls := Suc (queueCalls w)\<rparr>)"

definition TransactionReceipt ::
  "'a GasPriceIncremenetor \<Rightarrow> int \<Rightarrow> string \<Rightarrow> world \<Rightarrow> (go_error + nat) \<times> world" where
  "TransactionReceipt i chainID hash w =
     (ReceiptReply (bc i) (receiptCalls w) chainID hash, w\<lparr>receiptCalls := Suc (receiptCalls w)\<rparr>)"

definition SendTransaction ::
  "'a GasPriceIncremenetor \<Rightarrow> int \<Rightarrow> eth_tx \<Rightarrow> world \<Rightarrow> go_error option \<times> world" where
  "SendTransaction i chainID tx w =
     (SendReply (bc i) (length (broadcasts w)) chainID tx,
      w\<lparr>broadcasts := broadcasts w @ [(chainID, tx)]\<rparr>)"

definition TransactionByHash ::
  "'a GasPriceIncremenetor \<Rightarrow> int \<Rightarrow> string \<Rightarrow> world \<Rightarrow> (go_error + bool) \<times> world" where
  "TransactionByHash i chainID hash w =
     (ByHashReply (bc i) (byHashCalls w) chainID hash, w\<lparr>byHashCalls := Suc (byHashCalls w)\<rparr>)"

text \<open>
  The method \<^verbatim>\<open>log\<close> (named \<open>logTx\<close> here, \<open>log\<close> being the logarithm): the log
  function, when one is attached, is called with the pair.
\<close>

definition logTx :: "Transaction \<Rightarrow> go_error \<Rightarrow> world \<Rightarrow> world" where
  "logTx tx err w = w\<lparr>logged := logged w @ [(tx, err)]\<rparr>"

subsection \<open>Signer registry\<close>

text \<open>
  \<^verbatim>\<open>safeSigners.getSignerFunc\<close>; the result is \<open>None\<close> where Go returns
  \<^verbatim>\<open>ok == false\<close>. With one entry, the \<^verbatim>\<open>for ... range\<close> returns that entry's value.
\<close>

definition getSignerFunc :: "'a library \<Rightarrow> 'a Signers \<Rightarrow> string \<Rightarrow> SignatureFunc option" where
  "getSignerFunc L s senderAddressHex =
     (if length s = 1 \<and>
         (senderAddressHex = [] \<or> senderAddressHex = Hex L (HexToAddress L []))
      then (case s of (a, v) # rest \<Rightarrow> Some v | [] \<Rightarrow> map_of s (HexToAddress L senderAddressHex))
      else map_of s (HexToAddress L senderAddressHex))"

definition getSigners :: "'a library \<Rightarrow> 'a Signers \<Rightarrow> string list" where
  "getSigners L s = map (\<lambda>(signer, v). Hex L signer) s"

definition CanSign :: "'a library \<Rightarrow> 'a GasPriceIncremenetor \<Rightarrow> 'a \<Rightarrow> bool" where
  "CanSign L i sender = (case getSignerFunc L (signers i) (Hex L sender) of
     None \<Rightarrow> False | Some f \<Rightarrow> True)"

definition CanQueue ::
  "'a library \<Rightarrow> 'a GasPriceIncremenetor \<Rightarrow> 'a \<Rightarrow> world \<Rightarrow> (bool \<times> go_error option) \<times> world" where
  "CanQueue L i sender w =
     (case GetIncrementorSenderQueue i (Hex L sender) w of
        (Inl err, w') \<Rightarrow> ((False, Some err), w')
      | (Inr len, w') \<Rightarrow> ((len < MaxQueuePerSigner (cfg i), None), w'))"

subsection \<open>Helpers of package transfer that are not among the sources at hand\<close>

text \<open>
  Modelled from the spec: \<^verbatim>\<open>TransactionOpts.validate\<close> is missing; section 3 of the
  specification asks for sane positive intervals, a multiplier above 1 and a non-nil
  maximal price, and section 4.1 names the error \<^verbatim>\<open>InvalidOptsError\<close>.
\<close>

definition InvalidOptsError :: go_error where
  "InvalidOptsError = ErrorString ''InvalidOptsError''"

definition validate :: "TransactionOpts \<Rightarrow> go_error option" where
  "validate opts =
     (if 0 < Timeout opts \<and> 0 < CheckInterval opts \<and> 0 < IncreaseInterval opts \<and>
         1 < PriceMultiplier opts \<and> MaxPrice opts \<noteq> None
      then None else Some InvalidOptsError)"

text \<open>
  Modelled from the spec: \<^verbatim>\<open>newTransaction\<close> is missing; sections 3 and 4.1: a new
  record in state \<open>Pending\<close> whose \<open>LatestTx\<close> is the encoded transaction supplied.
  The identifier it draws is the parameter \<open>uid\<close>.
\<close>

definition newTransaction ::
  "'a library \<Rightarrow> string \<Rightarrow> eth_tx \<Rightarrow> 'a \<Rightarrow> TransactionOpts \<Rightarrow> go_error + Transaction" where
  "newTransaction L uid tx senderAddress opts =
     (case MarshalJSON L tx of
        Inl err \<Rightarrow> Inl err
      | Inr blob \<Rightarrow> Inr \<lparr>UniqueID = uid, ChainID = EthChainID tx,
          SenderAddressHex = Hex L senderAddress, State = TxStatePending,
          Opts = opts, LatestTx = blob\<rparr>)"

text \<open>
  Modelled from the spec: \<^verbatim>\<open>Transaction.getLatestTx\<close> is missing; section 4.1: decode
  the stored \<open>LatestTx\<close>.
\<close>

definition getLatestTx :: "'a library \<Rightarrow> Transaction \<Rightarrow> go_error + eth_tx" where
  "getLatestTx L tx = UnmarshalJSON L (LatestTx tx)"

text \<open>
  Modelled from the spec: \<^verbatim>\<open>Transaction.rebuiledWithNewGasPrice\<close> is missing; section
  4.1: an equivalent transaction carrying the same payload (recipient, value, nonce,
  chain) but the new gas price, not yet signed.
\<close>

definition rebuiledWithNewGasPrice :: "Transaction \<Rightarrow> eth_tx \<Rightarrow> int \<Rightarrow> eth_tx" where
  "rebuiledWithNewGasPrice tx org newGasPrice = org\<lparr>GasPrice := newGasPrice, Sig := []\<rparr>"

subsection \<open>Formatting of numbers in messages\<close>

fun showNat :: "nat \<Rightarrow> string" where
  "showNat n = (if n < 10 then [char_of (48 + n)]
                else showNat (n div 10) @ [char_of (48 + n mod 10)])"

declare showNat.simps [simp del]

definition showInt :: "int \<Rightarrow> string" where
  "showInt k = (if k < 0 then CHR ''-'' # showNat (nat (- k)) else showNat (nat k))"

subsection \<open>Persisting the three transitions\<close>

definition transactionFailed ::
  "'a GasPriceIncremenetor \<Rightarrow> Transaction \<Rightarrow> world \<Rightarrow> go_error option \<times> world" where
  "transactionFailed i tx w =
     (case UpsertIncrementorTransaction i (tx\<lparr>State := TxStateFailed\<rparr>) w of
        (Some err, w') \<Rightarrow> (Some (Wrapped ''failed marking transaction as failed: '' err), w')
      | (None, w') \<Rightarrow> (None, w'))"

definition transactionSuccess ::
  "'a GasPriceIncremenetor \<Rightarrow> Transaction \<Rightarrow> world \<Rightarrow> go_error option \<times> world" where
  "transactionSuccess i tx w =
     (case UpsertIncrementorTransaction i (tx\<lparr>State := TxStateSucceed\<rparr>) w of
        (Some err, w') \<Rightarrow> (Some (Wrapped ''failed marking transaction succeed: '' err), w')
      | (None, w') \<Rightarrow> (None, w'))"

text \<open>Go returns the pair \<^verbatim>\<open>(Transaction, error)\<close>; the error is \<open>None\<close> when nil.\<close>

definition transactionPriceIncreased ::
  "'a library \<Rightarrow> 'a GasPriceIncremenetor \<Rightarrow> Transaction \<Rightarrow> eth_tx \<Rightarrow> world \<Rightarrow>
     (Transaction \<times> go_error option) \<times> world" where
  "transactionPriceIncreased L i tx newTx w =
     (case MarshalJSON L newTx of
        Inl err \<Rightarrow>
          ((zeroTransaction,
            Some (Wrapped ''failed to marshal internal transaction object: '' err)), w)
      | Inr blob \<Rightarrow>
          (let tx' = tx\<lparr>State := TxStatePriceIncreased, LatestTx := blob\<rparr> in
           case UpsertIncrementorTransaction i tx' w of
             (Some err, w') \<Rightarrow>
               ((zeroTransaction,
                 Some (Wrapped ''failed to update transaction after price increase: '' err)), w')
           | (None, w') \<Rightarrow> ((tx', None), w')))"

subsection \<open>Signing and sending\<close>

definition signAndSend ::
  "'a library \<Rightarrow> 'a GasPriceIncremenetor \<Rightarrow> eth_tx \<Rightarrow> int \<Rightarrow> string \<Rightarrow> world \<Rightarrow>
     (go_error + eth_tx) \<times> world" where
  "signAndSend L i tx chainID senderAddrHex w =
     (case getSignerFunc L (signers i) senderAddrHex of
        None \<Rightarrow> (Inl (ErrorString (''can't retry, no signer for address: '' @ senderAddrHex)), w)
      | Some signer \<Rightarrow>
          (case signer tx chainID of
             Inl err \<Rightarrow> (Inl (Wrapped ''failed to sign a transaction: '' err), w)
           | Inr signedTx \<Rightarrow>
               (case SendTransaction i chainID signedTx w of
                  (Some err, w') \<Rightarrow> (Inl (Wrapped ''failed send a transaction: '' err), w')
                | (None, w') \<Rightarrow> (Inr signedTx, w'))))"

subsection \<open>Classification of errors\<close>

definition isBlockchainErrorUnhandleable :: "go_error \<Rightarrow> bool" where
  "isBlockchainErrorUnhandleable err =
     (if errorsIs err ErrNonceTooHigh \<or> errorsIs err ErrNonceTooLow \<or> errorsIs err NotFound
      then True
      else (case errorsUnwrap err of
              None \<Rightarrow> False
            | Some unwrapped \<Rightarrow>
                (if Error unwrapped = Error ErrNonceTooLow \<or>
                    Error unwrapped = Error ErrNonceTooHigh
                 then True else False)))"

subsection \<open>Raising the gas price\<close>

text \<open>
  A call either returns or panics: \<^verbatim>\<open>newGasPrice.Cmp(tx.Opts.MaxPrice)\<close> dereferences
  \<open>MaxPrice\<close>, which panics when it is nil.
\<close>

datatype 'r outcome = Panic | Ret 'r

definition gasPriceLimitError :: "Transaction \<Rightarrow> int \<Rightarrow> go_error" where
  "gasPriceLimitError tx maxPrice = ErrorString
     (''transaction with uniqueID '' @ [CHR 0x27] @ UniqueID tx @ [CHR 0x27] @
      '' failed, gas price limit of '' @ showInt maxPrice @
      '' reached on chain '' @ showInt (ChainID tx))"

definition increaseGasPrice ::
  "'a library \<Rightarrow> 'a GasPriceIncremenetor \<Rightarrow> Transaction \<Rightarrow> world \<Rightarrow>
     (Transaction \<times> go_error option) outcome \<times> world" where
  "increaseGasPrice L i tx w =
     (case getLatestTx L tx of
        Inl err \<Rightarrow> (Ret (zeroTransaction, Some err), w)
      | Inr org \<Rightarrow>
          (let newGasPrice = mulFloatInt L (PriceMultiplier (Opts tx)) (GasPrice org) in
           case MaxPrice (Opts tx) of
             None \<Rightarrow> (Panic, w)
           | Some maxPrice \<Rightarrow>
               if newGasPrice > maxPrice then
                 (case transactionFailed i tx w of
                    (Some err, w') \<Rightarrow> (Ret (zeroTransaction, Some err), w')
                  | (None, w') \<Rightarrow> (Ret (zeroTransaction, Some (gasPriceLimitError tx maxPrice)), w'))
               else
                 (case signAndSend L i (rebuiledWithNewGasPrice tx org newGasPrice)
                         (ChainID tx) (SenderAddressHex tx) w of
                    (Inl err, w') \<Rightarrow>
                      (case transactionFailed i tx w' of
                         (r, w'') \<Rightarrow> (Ret (zeroTransaction, r), w''))
                  | (Inr newTx, w') \<Rightarrow>
                      (case transactionPriceIncreased L i tx newTx w' of
                         (r, w'') \<Rightarrow> (Ret r, w'')))))"

subsection \<open>Asking the chain for the status\<close>

text \<open>
  \<^verbatim>\<open>types.ReceiptStatusFailed\<close> is 0 and \<^verbatim>\<open>types.ReceiptStatusSuccessful\<close> is 1. Of a
  receipt only the field \<^verbatim>\<open>Status\<close> is read.
\<close>

definition ReceiptStatusFailed :: nat where
  "ReceiptStatusFailed = 0"

definition ReceiptStatusSuccessful :: nat where
  "ReceiptStatusSuccessful = 1"

definition unknownReceiptError :: "'a library \<Rightarrow> Transaction \<Rightarrow> nat \<Rightarrow> go_error" where
  "unknownReceiptError L tx status =
     (let hash = (case getLatestTx L tx of Inr org \<Rightarrow> Hash L org | Inl err \<Rightarrow> []) in
      ErrorString (''received unknown receipt status '' @ showNat status @
        '' for tx uniqueID: '' @ [CHR 0x27] @ UniqueID tx @ [CHR 0x27] @
        '', lastHash: '' @ [CHR 0x27] @ hash @ [CHR 0x27]))"

definition bcTxStatusFromReceipt ::
  "'a library \<Rightarrow> 'a GasPriceIncremenetor \<Rightarrow> Transaction \<Rightarrow> nat \<Rightarrow> world \<Rightarrow> BCTxStatus \<times> world" where
  "bcTxStatusFromReceipt L i tx rcpStatus w =
     (if rcpStatus = ReceiptStatusSuccessful then (StatusSucceeded, w)
      else if rcpStatus = ReceiptStatusFailed then (StatusFailed, w)
      else (StatusFailed, logTx tx (unknownReceiptError L tx rcpStatus) w))"

definition getTxStatus ::
  "'a library \<Rightarrow> 'a GasPriceIncremenetor \<Rightarrow> Transaction \<Rightarrow> world \<Rightarrow>
     (BCTxStatus \<times> go_error option) \<times> world" where
  "getTxStatus L i tx w =
     (case getLatestTx L tx of
        Inl err \<Rightarrow>
          ((StatusFailed,
            Some (Wrapped ''can't get tx status, malformed internal tx object: '' err)), w)
      | Inr org \<Rightarrow>
          (let hash = Hash L org in
           case TransactionByHash i (ChainID tx) hash w of
             (Inl err, w1) \<Rightarrow>
               ((StatusFailed, Some (Wrapped ''failed to get transaction by hash: '' err)), w1)
           | (Inr pending, w1) \<Rightarrow>
               if pending then ((StatusPending, None), w1)
               else
                 (case TransactionReceipt i (ChainID tx) hash w1 of
                    (Inl err, w2) \<Rightarrow>
                      ((StatusFailed,
                        Some (Wrapped ''failed to get transaction receipt: '' err)), w2)
                  | (Inr receipt, w2) \<Rightarrow>
                      (case bcTxStatusFromReceipt L i tx receipt w2 of
                         (status, w3) \<Rightarrow> ((status, None), w3)))))"

subsection \<open>The watcher\<close>

text \<open>
  One round of the \<^verbatim>\<open>select\<close> of \<^verbatim>\<open>watchAndIncrement\<close> takes the case that became
  ready: the stop channel, the check ticker, the increase ticker or the timeout. The
  body of a case either returns from \<^verbatim>\<open>watchAndIncrement\<close>, or panics, or falls out of
  the \<^verbatim>\<open>select\<close> with the transaction the next round works on.
\<close>

datatype tick = StopSignal | CheckTick | IncTick | TimeoutTick

datatype round = Return "go_error option" | Panicked | NextRound Transaction

definition selectCase ::
  "'a library \<Rightarrow> 'a GasPriceIncremenetor \<Rightarrow> tick \<Rightarrow> Transaction \<Rightarrow> world \<Rightarrow> round \<times> world" where
  "selectCase L i t tx w =
     (case t of
        StopSignal \<Rightarrow> (Return None, w)
      | CheckTick \<Rightarrow>
          (case getTxStatus L i tx w of
             ((status, Some err), w1) \<Rightarrow>
               if \<not> isBlockchainErrorUnhandleable err then (Return (Some err), w1)
               else
                 (case transactionFailed i tx
                         (logTx tx (Wrapped
                            ''received unhandleable receipt error, marking tx as failed: '' err) w1) of
                    (r, w2) \<Rightarrow> (Return r, w2))
           | ((status, None), w1) \<Rightarrow>
               if status = StatusSucceeded then
                 (case transactionSuccess i tx w1 of (r, w2) \<Rightarrow> (Return r, w2))
               else (NextRound tx, w1))
      | IncTick \<Rightarrow>
          (case increaseGasPrice L i tx w of
             (Panic, w1) \<Rightarrow> (Panicked, w1)
           | (Ret (newTx, Some err), w1) \<Rightarrow>
               if \<not> isBlockchainErrorUnhandleable err then (Return (Some err), w1)
               else
                 (case transactionFailed i tx
                         (logTx tx (Wrapped
                            ''received unhandleable increase error, marking tx as failed: '' err) w1) of
                    (r, w2) \<Rightarrow> (Return r, w2))
           | (Ret (newTx, None), w1) \<Rightarrow> (NextRound newTx, w1))
      | TimeoutTick \<Rightarrow>
          (case transactionFailed i tx w of (r, w1) \<Rightarrow> (Return r, w1)))"

text \<open>
  \<^verbatim>\<open>watchAndIncrement\<close> over the cases that become ready, in the order in which the
  \<^verbatim>\<open>select\<close> takes them. When the list is used up the watcher waits in the \<^verbatim>\<open>select\<close>:
  \<open>NextRound tx\<close> with the transaction it holds.
\<close>

fun watchAndIncrement ::
  "'a library \<Rightarrow> 'a GasPriceIncremenetor \<Rightarrow> tick list \<Rightarrow> Transaction \<Rightarrow> world \<Rightarrow> round \<times> world" where
  "watchAndIncrement L i [] tx w = (NextRound tx, w)"
| "watchAndIncrement L i (t # ts) tx w =
     (case selectCase L i t tx w of
        (NextRound tx', w') \<Rightarrow> watchAndIncrement L i ts tx' w'
      | (r, w') \<Rightarrow> (r, w'))"

subsection \<open>The syncer\<close>

definition txMarkBeingWatched :: "Transaction \<Rightarrow> world \<Rightarrow> world" where
  "txMarkBeingWatched tx w = w\<lparr>watched := insert (UniqueID tx) (watched w)\<rparr>"

definition txBeingWatched :: "Transaction \<Rightarrow> world \<Rightarrow> bool" where
  "txBeingWatched tx w = (UniqueID tx \<in> watched w)"

definition txRemoveWatched :: "Transaction \<Rightarrow> world \<Rightarrow> world" where
  "txRemoveWatched tx w = w\<lparr>watched := watched w - {UniqueID tx}\<rparr>"

subsection \<open>Starting watchers\<close>

text \<open>
  The goroutine that \<^verbatim>\<open>tryWatch\<close> starts, run over the cases its \<^verbatim>\<open>select\<close> takes. The
  deferred \<^verbatim>\<open>txRemoveWatched\<close> runs when the function returns. \<open>tx\<close> is the copy that
  \<^verbatim>\<open>tryWatch\<close> was given: \<^verbatim>\<open>watchAndIncrement\<close> works on its own copy.
\<close>

datatype routine = Running | Finished | Crashed

definition tryWatchRoutine ::
  "'a library \<Rightarrow> 'a GasPriceIncremenetor \<Rightarrow> tick list \<Rightarrow> Transaction \<Rightarrow> world \<Rightarrow> routine \<times> world" where
  "tryWatchRoutine L i ts tx w =
     (case watchAndIncrement L i ts tx w of
        (NextRound tx', w1) \<Rightarrow> (Running, w1)
      | (Panicked, w1) \<Rightarrow> (Crashed, txRemoveWatched tx w1)
      | (Return None, w1) \<Rightarrow> (Finished, txRemoveWatched tx w1)
      | (Return (Some err), w1) \<Rightarrow>
          (let w2 = logTx tx err w1 in
           if \<not> isExpired L tx then (Finished, txRemoveWatched tx w2)
           else
             (case transactionFailed i tx w2 of
                (Some err2, w3) \<Rightarrow> (Finished, txRemoveWatched tx (logTx tx err2 w3))
              | (None, w3) \<Rightarrow> (Finished, txRemoveWatched tx w3))))"

text \<open>
  \<^verbatim>\<open>tryWatch\<close> up to the \<^verbatim>\<open>go\<close> statement: the goroutine it starts is recorded in
  \<open>spawned\<close> and runs as \<open>tryWatchRoutine\<close>.
\<close>

definition tryWatch :: "'a library \<Rightarrow> 'a GasPriceIncremenetor \<Rightarrow> Transaction \<Rightarrow> world \<Rightarrow> world" where
  "tryWatch L i tx w =
     (if txBeingWatched tx w then w
      else
        (case validate (Opts tx) of
           Some err \<Rightarrow>
             logTx tx (Wrapped ''can't increment gas price, got wrong tx opts: '' err) w
         | None \<Rightarrow>
             (let w1 = txMarkBeingWatched tx w in w1\<lparr>spawned := spawned w1 @ [tx]\<rparr>)))"

subsection \<open>The poll loop\<close>

fun process :: "'a library \<Rightarrow> 'a GasPriceIncremenetor \<Rightarrow> Transaction list \<Rightarrow> world \<Rightarrow> world" where
  "process L i [] w = w"
| "process L i (tx # txs) w =
     (if State tx = TxStateFailed \<or> State tx = TxStateSucceed then process L i txs w
      else process L i txs (tryWatch L i tx w))"

text \<open>
  \<^verbatim>\<open>Run\<close> over the cases its \<^verbatim>\<open>select\<close> takes: the stop channel or the pull timer. When
  the list is used up the loop waits in the \<^verbatim>\<open>select\<close>.
\<close>

datatype pull = RunStop | PullTick

fun Run :: "'a library \<Rightarrow> 'a GasPriceIncremenetor \<Rightarrow> pull list \<Rightarrow> world \<Rightarrow> world" where
  "Run L i [] w = w"
| "Run L i (RunStop # ps) w = w"
| "Run L i (PullTick # ps) w =
     (case GetIncrementorTransactionsToCheck i (getSigners L (signers i)) w of
        (Inl err, w1) \<Rightarrow> Run L i ps w1
      | (Inr txs, w1) \<Rightarrow> Run L i ps (process L i txs w1))"

subsection \<open>Inserting a transaction\<close>

text \<open>\<open>uid\<close> is the identifier that \<^verbatim>\<open>newTransaction\<close> draws for the record.\<close>

definition InsertInitial ::
  "'a library \<Rightarrow> 'a GasPriceIncremenetor \<Rightarrow> string \<Rightarrow> eth_tx \<Rightarrow> TransactionOpts \<Rightarrow> 'a \<Rightarrow> world \<Rightarrow>
     go_error option \<times> world" where
  "InsertInitial L i uid tx opts senderAddress w =
     (case validate opts of
        Some err \<Rightarrow> (Some (Wrapped ''invalid opts given: '' err), w)
      | None \<Rightarrow>
          (case newTransaction L uid tx senderAddress opts of
             Inl err \<Rightarrow> (Some (Wrapped ''failed to create new transaction: '' err), w)
           | Inr newTx \<Rightarrow> UpsertIncrementorTransaction i newTx w))"

subsection \<open>Predicates used by the properties\<close>

text \<open>
  A terminal state of the transaction \<open>uid\<close> is persisted in \<open>w\<close>: some upsert made so
  far carried \<open>uid\<close> in state \<open>Failed\<close> or \<open>Succeed\<close> and the storage answered it
  without an error.
\<close>

definition acceptedTerminal :: "'a GasPriceIncremenetor \<Rightarrow> string \<Rightarrow> world \<Rightarrow> bool" where
  "acceptedTerminal i uid w =
     (\<exists>k \<in> set [0..<length (upserts w)].
        UniqueID (upserts w ! k) = uid \<and>
        (State (upserts w ! k) = TxStateFailed \<or> State (upserts w ! k) = TxStateSucceed) \<and>
        UpsertReply (storage i) k (upserts w ! k) = None)"

text \<open>
  The specification's reading of an error reported by the chain that "indicates
  nonce-too-high, nonce-too-low or transaction not found": the error is, or wraps, one of
  the three sentinel values, or its message is the text of one of the two nonce errors.
\<close>

definition indicatesNonceOrNotFound :: "go_error \<Rightarrow> bool" where
  "indicatesNonceOrNotFound e =
     (errorsIs e ErrNonceTooHigh \<or> errorsIs e ErrNonceTooLow \<or> errorsIs e NotFound \<or>
      Error e = ''nonce too low'' \<or> Error e = ''nonce too high'')"

subsection \<open>A concrete library and concrete capabilities\<close>

text \<open>
  \<^verbatim>\<open>common.HexToAddress\<close> and \<^verbatim>\<open>Address.Hex\<close> as go-ethereum defines them, an address
  being a list of 20 bytes: \<^verbatim>\<open>FromHex\<close> drops a \<^verbatim>\<open>0x\<close> prefix, pads an odd number of
  digits with a leading \<^verbatim>\<open>0\<close> and keeps the bytes decoded before the first invalid digit;
  \<^verbatim>\<open>BytesToAddress\<close> keeps the last 20 bytes and pads on the left with zeros;
  \<^verbatim>\<open>Hex\<close> writes \<^verbatim>\<open>0x\<close> and 40 digits, a letter in upper case where the matching nibble
  of the Keccak-256 digest of the lower-case digits is above 7. The digest is a
  parameter.
\<close>

definition fromHexChar :: "char \<Rightarrow> nat option" where
  "fromHexChar c = (let n = (of_char c :: nat) in
     if 48 \<le> n \<and> n \<le> 57 then Some (n - 48)
     else if 97 \<le> n \<and> n \<le> 102 then Some (n - 87)
     else if 65 \<le> n \<and> n \<le> 70 then Some (n - 55)
     else None)"

fun hexDecodeString :: "string \<Rightarrow> nat list" where
  "hexDecodeString (a # b # cs) =
     (case fromHexChar a of
        None \<Rightarrow> []
      | Some x \<Rightarrow> (case fromHexChar b of
                    None \<Rightarrow> []
                  | Some y \<Rightarrow> (16 * x + y) # hexDecodeString cs))"
| "hexDecodeString cs = []"

definition has0xPrefix :: "string \<Rightarrow> bool" where
  "has0xPrefix s = (case s of
     a # b # cs \<Rightarrow> a = CHR ''0'' \<and> (b = CHR ''x'' \<or> b = CHR ''X'')
   | _ \<Rightarrow> False)"

definition FromHex :: "string \<Rightarrow> nat list" where
  "FromHex s =
     (let s1 = (if has0xPrefix s then drop 2 s else s);
          s2 = (if odd (length s1) then CHR ''0'' # s1 else s1)
      in hexDecodeString s2)"

definition BytesToAddress :: "nat list \<Rightarrow> nat list" where
  "BytesToAddress b =
     (let b1 = (if length b > 20 then drop (length b - 20) b else b)
      in replicate (20 - length b1) 0 @ b1)"

definition gethHexToAddress :: "string \<Rightarrow> nat list" where
  "gethHexToAddress s = BytesToAddress (FromHex s)"

definition hexDigit :: "nat \<Rightarrow> char" where
  "hexDigit n = (if n < 10 then char_of (48 + n) else char_of (87 + n))"

definition hexEncode :: "nat list \<Rightarrow> string" where
  "hexEncode bs = concat (map (\<lambda>b. [hexDigit (b div 16), hexDigit (b mod 16)]) bs)"

definition checksumHex :: "(string \<Rightarrow> nat list) \<Rightarrow> nat list \<Rightarrow> string" where
  "checksumHex keccak a =
     (let buf = hexEncode a; hash = keccak buf in
      ''0x'' @ map (\<lambda>k. let c = buf ! k; hb = hash ! (k div 2);
                           nib = (if even k then hb div 16 else hb mod 16)
                       in if (57::nat) < of_char c \<and> 7 < nib
                          then char_of (of_char c - (32::nat)) else c)
                  [0..<length buf])"

text \<open>
  The sample addresses are written with the digits 0 to 9 only, so that no letter case
  depends on the digest; the digest used with them is constant.
\<close>

definition sampleDigest :: "string \<Rightarrow> nat list" where
  "sampleDigest s = replicate 32 0"

definition zeroAddress :: "nat list" where
  "zeroAddress = replicate 20 0"

definition addressOne :: "nat list" where
  "addressOne = replicate 19 0 @ [1]"

text \<open>
  The product of the multiplier and the price, truncated towards zero. It is what
  \<^verbatim>\<open>big.Float\<close> computes whenever the product fits the precision of the result, as it
  does for the sample values.
\<close>

definition truncMul :: "rat \<Rightarrow> int \<Rightarrow> int" where
  "truncMul m p = (let x = m * of_int p in if 0 \<le> x then \<lfloor>x\<rfloor> else \<lceil>x\<rceil>)"

text \<open>
  Sample transactions differ in their gas price only, and the sample encoding writes
  just that price; decoding knows the prices 40 and 80.
\<close>

definition sampleEthTx :: "int \<Rightarrow> eth_tx" where
  "sampleEthTx p = \<lparr>Nonce = 7, GasPrice = p, Gas = 21000,
     To = ''0x0000000000000000000000000000000000000002'', Value = 1, Data = [],
     EthChainID = 1, Sig = ''signed''\<rparr>"

definition sampleMarshal :: "eth_tx \<Rightarrow> go_error + string" where
  "sampleMarshal t = Inr (''gasPrice:'' @ showInt (GasPrice t))"

definition sampleUnmarshal :: "string \<Rightarrow> go_error + eth_tx" where
  "sampleUnmarshal s =
     (if s = ''gasPrice:40'' then Inr (sampleEthTx 40)
      else if s = ''gasPrice:80'' then Inr (sampleEthTx 80)
      else Inl (ErrorString ''unexpected end of JSON input''))"

definition sampleSigner :: SignatureFunc where
  "sampleSigner t chainID = Inr (t\<lparr>Sig := ''signed''\<rparr>)"

definition sampleLibrary :: "bool \<Rightarrow> (nat list) library" where
  "sampleLibrary expired = \<lparr>HexToAddress = gethHexToAddress, Hex = checksumHex sampleDigest,
     mulFloatInt = truncMul, MarshalJSON = sampleMarshal, UnmarshalJSON = sampleUnmarshal,
     Hash = (\<lambda>t. ''hash:'' @ showInt (GasPrice t)), isExpired = (\<lambda>t. expired)\<rparr>"

definition sampleOpts :: TransactionOpts where
  "sampleOpts = \<lparr>Timeout = 3600000000000, CheckInterval = 1000000000,
     IncreaseInterval = 60000000000, PriceMultiplier = 2, MaxPrice = Some 100\<rparr>"

definition sampleTx :: "int \<Rightarrow> Transaction" where
  "sampleTx p = \<lparr>UniqueID = ''tx-1'', ChainID = 1,
     SenderAddressHex = ''0x0000000000000000000000000000000000000001'',
     State = TxStatePending, Opts = sampleOpts, LatestTx = ''gasPrice:'' @ showInt p\<rparr>"

text \<open>
  A storage that accepts every upsert and answers the queue length with \<open>queue\<close>; a
  chain client with one fixed answer per method; an incrementor over them.
\<close>

definition sampleStorage :: "go_error + int \<Rightarrow> Storage" where
  "sampleStorage queue = \<lparr>UpsertReply = (\<lambda>n t. None), ToCheckReply = (\<lambda>n s. Inr []),
     SenderQueueReply = (\<lambda>n s. queue)\<rparr>"

definition sampleChain ::
  "go_error + bool \<Rightarrow> go_error + nat \<Rightarrow> go_error option \<Rightarrow> MultichainClient" where
  "sampleChain byHash receipt send = \<lparr>ReceiptReply = (\<lambda>n c h. receipt),
     SendReply = (\<lambda>n c t. send), ByHashReply = (\<lambda>n c h. byHash)\<rparr>"

definition sampleIncrementor ::
  "go_error + int \<Rightarrow> MultichainClient \<Rightarrow> (nat list) GasPriceIncremenetor" where
  "sampleIncrementor queue chain = \<lparr>storage = sampleStorage queue, bc = chain,
     cfg = \<lparr>PullInterval = 1000000000, MaxQueuePerSigner = 5\<rparr>,
     signers = [(addressOne, sampleSigner)]\<rparr>"

definition pendingChain :: MultichainClient where
  "pendingChain = sampleChain (Inr True) (Inr 1) None"

section \<open>Properties\<close>

subsection \<open>Auxiliary facts\<close>

lemma transactionFailed_eq:
  "transactionFailed i tx w =
     (map_option (Wrapped ''failed marking transaction as failed: '')
        (UpsertReply (storage i) (length (upserts w)) (tx\<lparr>State := TxStateFailed\<rparr>)),
      w\<lparr>upserts := upserts w @ [tx\<lparr>State := TxStateFailed\<rparr>]\<rparr>)"
  by (simp add: transactionFailed_def UpsertIncrementorTransaction_def split: option.splits)

lemma transactionSuccess_eq:
  "transactionSuccess i tx w =
     (map_option (Wrapped ''failed marking transaction succeed: '')
        (UpsertReply (storage i) (length (upserts w)) (tx\<lparr>State := TxStateSucceed\<rparr>)),
      w\<lparr>upserts := upserts w @ [tx\<lparr>State := TxStateSucceed\<rparr>]\<rparr>)"
  by (simp add: transactionSuccess_def UpsertIncrementorTransaction_def split: option.splits)

lemma signAndSend_cases:
  assumes "signAndSend L i t c s w = (r, w')"
  shows "upserts w' = upserts w \<and> logged w' = logged w \<and>
     ((w' = w \<and> (\<exists>e. r = Inl e)) \<or>
      (\<exists>signer signed. getSignerFunc L (signers i) s = Some signer \<and> signer t c = Inr signed \<and>
         broadcasts w' = broadcasts w @ [(c, signed)] \<and>
         (case SendReply (bc i) (length (broadcasts w)) c signed of
            None \<Rightarrow> r = Inr signed | Some e \<Rightarrow> r = Inl (Wrapped ''failed send a transaction: '' e))))"
  using assms
  by (auto simp: signAndSend_def SendTransaction_def split: option.splits sum.splits)

lemma transactionPriceIncreased_cases:
  assumes "transactionPriceIncreased L i tx newTx w = (r, w')"
  shows "broadcasts w' = broadcasts w \<and>
     ((w' = w \<and> (\<exists>e. MarshalJSON L newTx = Inl e \<and> r = (zeroTransaction, Some (Wrapped ''failed to marshal internal transaction object: '' e)))) \<or>
      (\<exists>blob. MarshalJSON L newTx = Inr blob \<and>
         upserts w' = upserts w @ [tx\<lparr>State := TxStatePriceIncreased, LatestTx := blob\<rparr>] \<and>
         (case UpsertReply (storage i) (length (upserts w)) (tx\<lparr>State := TxStatePriceIncreased, LatestTx := blob\<rparr>) of
            None \<Rightarrow> r = (tx\<lparr>State := TxStatePriceIncreased, LatestTx := blob\<rparr>, None)
          | Some e \<Rightarrow> r = (zeroTransaction, Some (Wrapped ''failed to update transaction after price increase: '' e)))))"
  using assms
  by (auto simp: transactionPriceIncreased_def UpsertIncrementorTransaction_def Let_def split: option.splits sum.splits)

lemma getTxStatus_frame:
  assumes "getTxStatus L i tx w = (r, w1)"
  shows "upserts w1 = upserts w \<and> broadcasts w1 = broadcasts w \<and>
         watched w1 = watched w \<and> spawned w1 = spawned w"
  using assms
  by (auto simp: getTxStatus_def TransactionByHash_def TransactionReceipt_def
        bcTxStatusFromReceipt_def logTx_def Let_def
      split: sum.splits if_splits prod.splits)

lemma unhandleable_Wrapped:
  "isBlockchainErrorUnhandleable (Wrapped p e) = indicatesNonceOrNotFound e"
  by (auto simp: isBlockchainErrorUnhandleable_def indicatesNonceOrNotFound_def)

lemma getTxStatus_error:
  assumes org: "getLatestTx L tx = Inr org"
      and q: "ByHashReply (bc i) (byHashCalls w) (ChainID tx) (Hash L org) = Inl e \<or>
              (ByHashReply (bc i) (byHashCalls w) (ChainID tx) (Hash L org) = Inr False \<and>
               ReceiptReply (bc i) (receiptCalls w) (ChainID tx) (Hash L org) = Inl e)"
  shows "\<exists>p w1. getTxStatus L i tx w = ((StatusFailed, Some (Wrapped p e)), w1)"
  using org q
  by (auto simp: getTxStatus_def TransactionByHash_def TransactionReceipt_def Let_def)

lemma acceptedTerminal_mono:
  assumes "acceptedTerminal i uid w" and "upserts w' = upserts w @ xs"
  shows "acceptedTerminal i uid w'"
proof -
  from assms(1) obtain k where k: "k < length (upserts w)" "UniqueID (upserts w ! k) = uid"
    "State (upserts w ! k) = TxStateFailed \<or> State (upserts w ! k) = TxStateSucceed"
    "UpsertReply (storage i) k (upserts w ! k) = None"
    by (auto simp: acceptedTerminal_def)
  then have "upserts w' ! k = upserts w ! k" "k < length (upserts w')"
    using assms(2) by (simp_all add: nth_append)
  with k show ?thesis
    unfolding acceptedTerminal_def by (intro bexI [of _ k]) auto
qed

lemma acceptedTerminal_last:
  assumes "upserts w' = upserts w @ [u]" "UniqueID u = uid"
    "State u = TxStateFailed \<or> State u = TxStateSucceed"
    "UpsertReply (storage i) (length (upserts w)) u = None"
  shows "acceptedTerminal i uid w'"
  unfolding acceptedTerminal_def
  using assms by (intro bexI [of _ "length (upserts w)"]) auto

lemma increaseGasPrice_next:
  assumes "increaseGasPrice L i tx w = (Ret (newTx, None), w')"
  shows "(\<exists>xs. upserts w' = upserts w @ xs) \<and>
         (UniqueID newTx = UniqueID tx \<or> acceptedTerminal i (UniqueID tx) w')"
proof (cases "getLatestTx L tx")
  case (Inl e)
  with assms show ?thesis by (simp add: increaseGasPrice_def)
next
  case (Inr org)
  show ?thesis
  proof (cases "MaxPrice (Opts tx)")
    case None
    with Inr assms show ?thesis by (simp add: increaseGasPrice_def Let_def)
  next
    case (Some maxPrice)
    define newPrice where "newPrice = mulFloatInt L (PriceMultiplier (Opts tx)) (GasPrice org)"
    show ?thesis
    proof (cases "newPrice > maxPrice")
      case True
      with Inr Some assms show ?thesis
        by (auto simp: increaseGasPrice_def Let_def newPrice_def transactionFailed_eq
            split: option.splits)
    next
      case False
      obtain r1 w1 where ss: "signAndSend L i (rebuiledWithNewGasPrice tx org newPrice)
           (ChainID tx) (SenderAddressHex tx) w = (r1, w1)"
        by (cases "signAndSend L i (rebuiledWithNewGasPrice tx org newPrice)
           (ChainID tx) (SenderAddressHex tx) w")
      from signAndSend_cases [OF ss] have u1: "upserts w1 = upserts w" by simp
      show ?thesis
      proof (cases r1)
        case (Inl e)
        with Inr Some False ss assms have
          w': "w' = w1\<lparr>upserts := upserts w1 @ [tx\<lparr>State := TxStateFailed\<rparr>]\<rparr>"
          and rp: "UpsertReply (storage i) (length (upserts w1)) (tx\<lparr>State := TxStateFailed\<rparr>) = None"
          by (auto simp: increaseGasPrice_def Let_def newPrice_def transactionFailed_eq)
        have "acceptedTerminal i (UniqueID tx) w'"
          by (rule acceptedTerminal_last [of w' w1 "tx\<lparr>State := TxStateFailed\<rparr>"])
             (use w' rp in simp_all)
        with w' u1 show ?thesis by simp
      next
        case (Inr signed)
        obtain r2 w2 where tp: "transactionPriceIncreased L i tx signed w1 = (r2, w2)"
          by (cases "transactionPriceIncreased L i tx signed w1")
        from \<open>getLatestTx L tx = Inr org\<close> Some False ss Inr tp assms
        have "w' = w2" "r2 = (newTx, None)"
          by (auto simp: increaseGasPrice_def Let_def newPrice_def)
        with transactionPriceIncreased_cases [OF tp] u1 show ?thesis
          by (auto split: option.splits)
      qed
    qed
  qed
qed

lemma selectCase_next:
  assumes "selectCase L i t tx w = (NextRound tx', w')"
  shows "(\<exists>xs. upserts w' = upserts w @ xs) \<and>
         (UniqueID tx' = UniqueID tx \<or> acceptedTerminal i (UniqueID tx) w')"
proof (cases t)
  case StopSignal
  with assms show ?thesis by (simp add: selectCase_def)
next
  case CheckTick
  obtain st oe w1 where g: "getTxStatus L i tx w = ((st, oe), w1)"
    by (cases "getTxStatus L i tx w") auto
  with CheckTick assms getTxStatus_frame [OF g] show ?thesis
    by (auto simp: selectCase_def transactionFailed_eq transactionSuccess_eq
        split: option.splits if_splits)
next
  case IncTick
  obtain o1 w1 where g: "increaseGasPrice L i tx w = (o1, w1)"
    by (cases "increaseGasPrice L i tx w")
  with IncTick assms have "o1 = Ret (tx', None)" "w1 = w'"
    by (auto simp: selectCase_def transactionFailed_eq
        split: outcome.splits option.splits if_splits prod.splits)
  with g increaseGasPrice_next show ?thesis by blast
next
  case TimeoutTick
  with assms show ?thesis by (simp add: selectCase_def transactionFailed_eq)
qed

lemma watchAndIncrement_next:
  "watchAndIncrement L i ts tx w = (NextRound tx', w') \<Longrightarrow>
     (\<exists>xs. upserts w' = upserts w @ xs) \<and>
     (UniqueID tx' = UniqueID tx \<or> acceptedTerminal i (UniqueID tx) w')"
proof (induction ts arbitrary: tx w)
  case Nil
  then show ?case by simp
next
  case (Cons t ts)
  obtain r1 w1 where s: "selectCase L i t tx w = (r1, w1)"
    by (cases "selectCase L i t tx w")
  with Cons.prems obtain tx1 where r1: "r1 = NextRound tx1"
    and rest: "watchAndIncrement L i ts tx1 w1 = (NextRound tx', w')"
    by (cases r1) auto
  from selectCase_next s r1 have
    p1: "\<exists>xs. upserts w1 = upserts w @ xs"
    and i1: "UniqueID tx1 = UniqueID tx \<or> acceptedTerminal i (UniqueID tx) w1" by blast+
  from Cons.IH [OF rest] have
    p2: "\<exists>xs. upserts w' = upserts w1 @ xs"
    and i2: "UniqueID tx' = UniqueID tx1 \<or> acceptedTerminal i (UniqueID tx1) w'" by blast+
  from p1 p2 have p: "\<exists>xs. upserts w' = upserts w @ xs" by auto
  from i1 show ?case
  proof
    assume "UniqueID tx1 = UniqueID tx"
    with i2 p show ?thesis by simp
  next
    assume "acceptedTerminal i (UniqueID tx) w1"
    with p2 acceptedTerminal_mono have "acceptedTerminal i (UniqueID tx) w'" by blast
    with p show ?thesis by simp
  qed
qed

lemma watchAndIncrement_append:
  "watchAndIncrement L i ts tx w = (NextRound tx', w1) \<Longrightarrow>
     watchAndIncrement L i (ts @ us) tx w = watchAndIncrement L i us tx' w1"
proof (induction ts arbitrary: tx w)
  case Nil
  then show ?case by simp
next
  case (Cons t ts)
  obtain r1 w2 where s: "selectCase L i t tx w = (r1, w2)"
    by (cases "selectCase L i t tx w")
  with Cons.prems obtain tx1 where r1: "r1 = NextRound tx1"
    and rest: "watchAndIncrement L i ts tx1 w2 = (NextRound tx', w1)"
    by (cases r1) auto
  from Cons.IH [OF rest] s r1 show ?case by simp
qed

lemma process_skips_finalized:
  "upserts (process L i txs w) = upserts w \<and> broadcasts (process L i txs w) = broadcasts w \<and>
   (\<exists>new. spawned (process L i txs w) = spawned w @ new \<and>
      (\<forall>t \<in> set new. t \<in> set txs \<and> State t \<noteq> TxStateFailed \<and> State t \<noteq> TxStateSucceed))"
proof (induction txs arbitrary: w)
  case Nil
  then show ?case by simp
next
  case (Cons tx txs)
  show ?case
  proof (cases "State tx = TxStateFailed \<or> State tx = TxStateSucceed")
    case True
    with Cons.IH [of w] show ?thesis by auto
  next
    case False
    have tw: "upserts (tryWatch L i tx w) = upserts w \<and>
        broadcasts (tryWatch L i tx w) = broadcasts w \<and>
        (spawned (tryWatch L i tx w) = spawned w \<or> spawned (tryWatch L i tx w) = spawned w @ [tx])"
      by (auto simp: tryWatch_def txMarkBeingWatched_def logTx_def Let_def split: option.splits)
    from Cons.IH [of "tryWatch L i tx w"] obtain new where
      new: "spawned (process L i txs (tryWatch L i tx w)) = spawned (tryWatch L i tx w) @ new"
        "\<forall>t \<in> set new. t \<in> set txs \<and> State t \<noteq> TxStateFailed \<and> State t \<noteq> TxStateSucceed"
      and fr: "upserts (process L i txs (tryWatch L i tx w)) = upserts (tryWatch L i tx w)"
        "broadcasts (process L i txs (tryWatch L i tx w)) = broadcasts (tryWatch L i tx w)"
      by blast
    from tw show ?thesis
    proof (elim conjE disjE)
      assume "spawned (tryWatch L i tx w) = spawned w"
      with new fr tw False show ?thesis by auto
    next
      assume "spawned (tryWatch L i tx w) = spawned w @ [tx]"
      with new fr tw False show ?thesis
        by (auto intro!: exI [of _ "tx # new"])
    qed
  qed
qed

lemma world0_logs: "upserts world0 = []" "broadcasts world0 = []"
  by (simp_all add: world0_def)

subsection \<open>C1: a raised gas price never exceeds MaxPrice\<close>

text \<open>
  Claim C1. When the increase timer fires, \<open>increaseGasPrice\<close> computes the new price as
  the \<^verbatim>\<open>big.Float\<close> product of \<open>PriceMultiplier\<close> and the current gas price, truncated
  to an integer (\<open>mulFloatInt\<close>). If the new price is above \<open>MaxPrice\<close>, the only
  effect is one upsert of the transaction in state \<open>Failed\<close>; nothing is broadcast, an
  error is returned, and it is the gas-price-limit error whenever the storage accepted
  the upsert. Every transaction the call broadcasts is what the sender's signer returned
  for the rebuilt transaction, whose gas price is the new price and is at most
  \<open>MaxPrice\<close>; and every record the call upserts is either the transaction marked
  \<open>Failed\<close> (its \<open>LatestTx\<close> untouched) or the transaction in state \<open>PriceIncreased\<close>
  carrying the encoding of that signed transaction.
\<close>

theorem increaseGasPrice_respects_MaxPrice:
  assumes org: "getLatestTx L tx = Inr org"
      and mx: "MaxPrice (Opts tx) = Some maxPrice"
      and np: "newPrice = mulFloatInt L (PriceMultiplier (Opts tx)) (GasPrice org)"
      and res: "increaseGasPrice L i tx w = (r, w')"
  shows "(newPrice > maxPrice \<longrightarrow>
            upserts w' = upserts w @ [tx\<lparr>State := TxStateFailed\<rparr>] \<and>
            broadcasts w' = broadcasts w \<and>
            (\<exists>err. r = Ret (zeroTransaction, Some err)) \<and>
            (UpsertReply (storage i) (length (upserts w)) (tx\<lparr>State := TxStateFailed\<rparr>) = None \<longrightarrow>
               r = Ret (zeroTransaction, Some (gasPriceLimitError tx maxPrice)))) \<and>
         (\<forall>c t. (c, t) \<in> set (drop (length (broadcasts w)) (broadcasts w')) \<longrightarrow>
            newPrice \<le> maxPrice \<and> c = ChainID tx \<and>
            (\<exists>signer. getSignerFunc L (signers i) (SenderAddressHex tx) = Some signer \<and>
               signer (rebuiledWithNewGasPrice tx org newPrice) (ChainID tx) = Inr t)) \<and>
         (\<forall>u. u \<in> set (drop (length (upserts w)) (upserts w')) \<longrightarrow>
            u = tx\<lparr>State := TxStateFailed\<rparr> \<or>
            (newPrice \<le> maxPrice \<and> GasPrice (rebuiledWithNewGasPrice tx org newPrice) = newPrice \<and>
             (\<exists>signer signed blob.
                getSignerFunc L (signers i) (SenderAddressHex tx) = Some signer \<and>
                signer (rebuiledWithNewGasPrice tx org newPrice) (ChainID tx) = Inr signed \<and>
                MarshalJSON L signed = Inr blob \<and>
                u = tx\<lparr>State := TxStatePriceIncreased, LatestTx := blob\<rparr>)))"
proof (cases "newPrice > maxPrice")
  case True
  with org mx np res show ?thesis
    by (auto simp: increaseGasPrice_def transactionFailed_eq Let_def split: option.splits)
next
  case False
  obtain r1 w1 where ss: "signAndSend L i (rebuiledWithNewGasPrice tx org newPrice)
       (ChainID tx) (SenderAddressHex tx) w = (r1, w1)"
    by (cases "signAndSend L i (rebuiledWithNewGasPrice tx org newPrice)
       (ChainID tx) (SenderAddressHex tx) w")
  note sc = signAndSend_cases [OF ss]
  have gp: "GasPrice (rebuiledWithNewGasPrice tx org newPrice) = newPrice"
    by (simp add: rebuiledWithNewGasPrice_def)
  show ?thesis
  proof (cases r1)
    case (Inl e)
    with org mx np res False ss have
      "w' = w1\<lparr>upserts := upserts w1 @ [tx\<lparr>State := TxStateFailed\<rparr>]\<rparr>"
      by (auto simp: increaseGasPrice_def transactionFailed_eq Let_def)
    with sc Inl False show ?thesis
      by (auto split: option.splits)
  next
    case (Inr signed)
    obtain r2 w2 where tp: "transactionPriceIncreased L i tx signed w1 = (r2, w2)"
      by (cases "transactionPriceIncreased L i tx signed w1")
    note tc = transactionPriceIncreased_cases [OF tp]
    from org mx np res False ss Inr tp have w': "w' = w2"
      by (auto simp: increaseGasPrice_def Let_def)
    from sc Inr obtain signer where sg: "getSignerFunc L (signers i) (SenderAddressHex tx) = Some signer"
      "signer (rebuiledWithNewGasPrice tx org newPrice) (ChainID tx) = Inr signed"
      "broadcasts w1 = broadcasts w @ [(ChainID tx, signed)]" "upserts w1 = upserts w"
      by (auto split: option.splits)
    with tc w' False gp show ?thesis
      by (auto split: option.splits)
  qed
qed

text \<open>
  The theorem on the sample transaction with multiplier 2 and maximal price 100: from the
  price 80 the new price 160 is refused, from the price 40 the price 80 is broadcast.
\<close>

theorem increaseGasPrice_respects_MaxPrice_witness:
  "getLatestTx (sampleLibrary False) (sampleTx 80) = Inr (sampleEthTx 80) \<and>
   MaxPrice (Opts (sampleTx 80)) = Some 100 \<and>
   mulFloatInt (sampleLibrary False) (PriceMultiplier (Opts (sampleTx 80)))
     (GasPrice (sampleEthTx 80)) = 160 \<and> (100::int) < 160 \<and>
   upserts (snd (increaseGasPrice (sampleLibrary False) (sampleIncrementor (Inr 3) pendingChain)
      (sampleTx 80) world0)) = [(sampleTx 80)\<lparr>State := TxStateFailed\<rparr>] \<and>
   broadcasts (snd (increaseGasPrice (sampleLibrary False) (sampleIncrementor (Inr 3) pendingChain)
      (sampleTx 80) world0)) = [] \<and>
   fst (increaseGasPrice (sampleLibrary False) (sampleIncrementor (Inr 3) pendingChain)
      (sampleTx 80) world0) = Ret (zeroTransaction, Some (gasPriceLimitError (sampleTx 80) 100)) \<and>
   (1, sampleEthTx 80) \<in> set (drop (length (broadcasts world0))
      (broadcasts (snd (increaseGasPrice (sampleLibrary False)
         (sampleIncrementor (Inr 3) pendingChain) (sampleTx 40) world0)))) \<and>
   (80::int) \<le> 100"
proof -
  let ?L = "sampleLibrary False" and ?I = "sampleIncrementor (Inr 3) pendingChain"
  have org: "getLatestTx ?L (sampleTx 80) = Inr (sampleEthTx 80)" by code_simp
  have mx: "MaxPrice (Opts (sampleTx 80)) = Some 100" by code_simp
  have np: "160 = mulFloatInt ?L (PriceMultiplier (Opts (sampleTx 80))) (GasPrice (sampleEthTx 80))"
    by code_simp
  have rp: "UpsertReply (storage ?I) (length (upserts world0))
      ((sampleTx 80)\<lparr>State := TxStateFailed\<rparr>) = None"
    by (simp add: sampleIncrementor_def sampleStorage_def)
  have gt: "(100::int) < 160" by simp
  obtain r w' where res: "increaseGasPrice ?L ?I (sampleTx 80) world0 = (r, w')"
    by (cases "increaseGasPrice ?L ?I (sampleTx 80) world0")
  from increaseGasPrice_respects_MaxPrice [OF org mx np res, THEN conjunct1] gt rp
  have a: "upserts w' = [(sampleTx 80)\<lparr>State := TxStateFailed\<rparr>] \<and> broadcasts w' = [] \<and>
      r = Ret (zeroTransaction, Some (gasPriceLimitError (sampleTx 80) 100))"
    by (simp only: world0_logs append_Nil simp_thms)
  have org4: "getLatestTx ?L (sampleTx 40) = Inr (sampleEthTx 40)" by code_simp
  have mx4: "MaxPrice (Opts (sampleTx 40)) = Some 100" by code_simp
  have np4: "80 = mulFloatInt ?L (PriceMultiplier (Opts (sampleTx 40))) (GasPrice (sampleEthTx 40))"
    by code_simp
  have b: "(1, sampleEthTx 80) \<in> set (drop (length (broadcasts world0))
      (broadcasts (snd (increaseGasPrice ?L ?I (sampleTx 40) world0))))"
    by code_simp
  obtain r4 w4 where res4: "increaseGasPrice ?L ?I (sampleTx 40) world0 = (r4, w4)"
    by (cases "increaseGasPrice ?L ?I (sampleTx 40) world0")
  from b res4 have b': "(1, sampleEthTx 80) \<in> set (drop (length (broadcasts world0)) (broadcasts w4))"
    by (simp only: snd_conv)
  from increaseGasPrice_respects_MaxPrice [OF org4 mx4 np4 res4, THEN conjunct2, THEN conjunct1] b'
  have le: "(80::int) \<le> 100" by blast
  from a res have a': "upserts (snd (increaseGasPrice ?L ?I (sampleTx 80) world0)) =
        [(sampleTx 80)\<lparr>State := TxStateFailed\<rparr>] \<and>
      broadcasts (snd (increaseGasPrice ?L ?I (sampleTx 80) world0)) = [] \<and>
      fst (increaseGasPrice ?L ?I (sampleTx 80) world0) =
        Ret (zeroTransaction, Some (gasPriceLimitError (sampleTx 80) 100))"
    by (simp only: fst_conv snd_conv simp_thms)
  from org mx np [symmetric] gt a' b le show ?thesis by blast
qed

subsection \<open>C2: no write after a terminal state\<close>

text \<open>
  Claim C2. The claim says that after a watcher has persisted a terminal state of a
  transaction it makes no further upsert for that \<open>UniqueID\<close>. The code at a concrete
  input: the sample transaction (price 40, multiplier 2, maximal price 100) is expired
  when the watcher asks, and the increase ticker fires twice. The first round persists
  \<open>PriceIncreased\<close> with the price 80; the second finds 160 above the maximal price,
  persists \<open>Failed\<close> (accepted by the storage) and returns the gas-price-limit error;
  the goroutine of \<open>tryWatch\<close> then finds the transaction expired and upserts its own
  copy as \<open>Failed\<close> once more, with the \<open>LatestTx\<close> of the price 40.
\<close>

theorem expired_watcher_rewrites_failed:
  "fst (tryWatchRoutine (sampleLibrary True) (sampleIncrementor (Inr 3) pendingChain)
      [IncTick, IncTick] (sampleTx 40) world0) = Finished \<and>
   upserts (snd (tryWatchRoutine (sampleLibrary True) (sampleIncrementor (Inr 3) pendingChain)
      [IncTick, IncTick] (sampleTx 40) world0)) =
     [(sampleTx 40)\<lparr>State := TxStatePriceIncreased, LatestTx := ''gasPrice:80''\<rparr>,
      (sampleTx 40)\<lparr>State := TxStateFailed, LatestTx := ''gasPrice:80''\<rparr>,
      (sampleTx 40)\<lparr>State := TxStateFailed\<rparr>] \<and>
   UpsertReply (storage (sampleIncrementor (Inr 3) pendingChain)) 1
      ((sampleTx 40)\<lparr>State := TxStateFailed, LatestTx := ''gasPrice:80''\<rparr>) = None \<and>
   acceptedTerminal (sampleIncrementor (Inr 3) pendingChain) (UniqueID (sampleTx 40))
     (snd (watchAndIncrement (sampleLibrary True) (sampleIncrementor (Inr 3) pendingChain)
        [IncTick, IncTick] (sampleTx 40) world0))"
  by code_simp

subsection \<open>C3: classification of the errors of a status query\<close>

text \<open>
  Claim C3, as stated, fails: an error that is not classified as unrecoverable does not
  always leave the persisted state unchanged. On the sample transaction the status query
  fails with "connection refused", the error is not unhandleable, and since the
  transaction is found expired the watcher upserts it as \<open>Failed\<close>, which the storage
  accepts.
\<close>

theorem transient_error_expired_counterexample:
  "\<not> isBlockchainErrorUnhandleable
       (Wrapped ''failed to get transaction by hash: '' (ErrorString ''connection refused'')) \<and>
   fst (getTxStatus (sampleLibrary True)
          (sampleIncrementor (Inr 3)
             (sampleChain (Inl (ErrorString ''connection refused'')) (Inr 1) None))
          (sampleTx 40) world0) =
     (StatusFailed,
      Some (Wrapped ''failed to get transaction by hash: '' (ErrorString ''connection refused''))) \<and>
   upserts (snd (tryWatchRoutine (sampleLibrary True)
          (sampleIncrementor (Inr 3)
             (sampleChain (Inl (ErrorString ''connection refused'')) (Inr 1) None))
          [CheckTick] (sampleTx 40) world0)) = [(sampleTx 40)\<lparr>State := TxStateFailed\<rparr>] \<and>
   UpsertReply (storage (sampleIncrementor (Inr 3)
          (sampleChain (Inl (ErrorString ''connection refused'')) (Inr 1) None)))
       0 ((sampleTx 40)\<lparr>State := TxStateFailed\<rparr>) = None"
  by code_simp

text \<open>
  Claim C3, amended. Let \<open>e\<close> be the error that \<open>TransactionByHash\<close> or
  \<open>TransactionReceipt\<close> returns on a check tick. \<open>getTxStatus\<close> wraps it once, and the
  wrapped error is unhandleable exactly when \<open>e\<close> is or wraps one of the three sentinel
  values or has the message of one of the two nonce errors. In that case the round
  upserts the transaction as \<open>Failed\<close> and returns. Otherwise the round returns the
  error without any upsert, and the watcher goroutine then leaves the storage untouched
  unless the transaction is expired, in which case it upserts it as \<open>Failed\<close>.
\<close>

theorem status_error_classification:
  assumes org: "getLatestTx L tx = Inr org"
      and q: "ByHashReply (bc i) (byHashCalls w) (ChainID tx) (Hash L org) = Inl e \<or>
              (ByHashReply (bc i) (byHashCalls w) (ChainID tx) (Hash L org) = Inr False \<and>
               ReceiptReply (bc i) (receiptCalls w) (ChainID tx) (Hash L org) = Inl e)"
  shows "\<exists>p w1 rd w2 w3.
           getTxStatus L i tx w = ((StatusFailed, Some (Wrapped p e)), w1) \<and>
           isBlockchainErrorUnhandleable (Wrapped p e) = indicatesNonceOrNotFound e \<and>
           selectCase L i CheckTick tx w = (Return rd, w2) \<and>
           tryWatchRoutine L i (CheckTick # ts) tx w = (Finished, w3) \<and>
           (indicatesNonceOrNotFound e \<longrightarrow>
              upserts w2 = upserts w @ [tx\<lparr>State := TxStateFailed\<rparr>]) \<and>
           (\<not> indicatesNonceOrNotFound e \<longrightarrow>
              rd = Some (Wrapped p e) \<and> upserts w2 = upserts w \<and>
              upserts w3 = (if isExpired L tx then upserts w @ [tx\<lparr>State := TxStateFailed\<rparr>]
                            else upserts w))"
proof -
  from getTxStatus_error [OF org q] obtain p w1
    where g: "getTxStatus L i tx w = ((StatusFailed, Some (Wrapped p e)), w1)" by blast
  note fr = getTxStatus_frame [OF g]
  show ?thesis
  proof (cases "indicatesNonceOrNotFound e")
    case True
    with g fr show ?thesis
      by (auto simp: selectCase_def tryWatchRoutine_def unhandleable_Wrapped
            transactionFailed_eq logTx_def txRemoveWatched_def Let_def
          split: option.splits)
  next
    case False
    with g fr show ?thesis
      by (auto simp: selectCase_def tryWatchRoutine_def unhandleable_Wrapped
            transactionFailed_eq logTx_def txRemoveWatched_def Let_def
          split: option.splits)
  qed
qed

text \<open>
  The theorem on the sample transaction: "connection refused" with an expired
  transaction, and \<open>ErrNonceTooLow\<close> returned for the receipt.
\<close>

theorem status_error_classification_witness:
  "getLatestTx (sampleLibrary True) (sampleTx 40) = Inr (sampleEthTx 40) \<and>
   \<not> indicatesNonceOrNotFound (ErrorString ''connection refused'') \<and>
   isExpired (sampleLibrary True) (sampleTx 40) \<and>
   upserts (snd (tryWatchRoutine (sampleLibrary True)
          (sampleIncrementor (Inr 3)
             (sampleChain (Inl (ErrorString ''connection refused'')) (Inr 1) None))
          [CheckTick] (sampleTx 40) world0)) = [(sampleTx 40)\<lparr>State := TxStateFailed\<rparr>] \<and>
   indicatesNonceOrNotFound ErrNonceTooLow \<and>
   upserts (snd (selectCase (sampleLibrary True)
          (sampleIncrementor (Inr 3) (sampleChain (Inr False) (Inl ErrNonceTooLow) None))
          CheckTick (sampleTx 40) world0)) = [(sampleTx 40)\<lparr>State := TxStateFailed\<rparr>]"
proof -
  let ?L = "sampleLibrary True"
  let ?I1 = "sampleIncrementor (Inr 3)
      (sampleChain (Inl (ErrorString ''connection refused'')) (Inr 1) None)"
  let ?I2 = "sampleIncrementor (Inr 3) (sampleChain (Inr False) (Inl ErrNonceTooLow) None)"
  have org: "getLatestTx ?L (sampleTx 40) = Inr (sampleEthTx 40)" by code_simp
  have q1: "ByHashReply (bc ?I1) (byHashCalls world0) (ChainID (sampleTx 40))
        (Hash ?L (sampleEthTx 40)) = Inl (ErrorString ''connection refused'') \<or>
      (ByHashReply (bc ?I1) (byHashCalls world0) (ChainID (sampleTx 40))
        (Hash ?L (sampleEthTx 40)) = Inr False \<and>
       ReceiptReply (bc ?I1) (receiptCalls world0) (ChainID (sampleTx 40))
        (Hash ?L (sampleEthTx 40)) = Inl (ErrorString ''connection refused''))"
    by (simp add: sampleIncrementor_def sampleChain_def)
  have q2: "ByHashReply (bc ?I2) (byHashCalls world0) (ChainID (sampleTx 40))
        (Hash ?L (sampleEthTx 40)) = Inl ErrNonceTooLow \<or>
      (ByHashReply (bc ?I2) (byHashCalls world0) (ChainID (sampleTx 40))
        (Hash ?L (sampleEthTx 40)) = Inr False \<and>
       ReceiptReply (bc ?I2) (receiptCalls world0) (ChainID (sampleTx 40))
        (Hash ?L (sampleEthTx 40)) = Inl ErrNonceTooLow)"
    by (simp add: sampleIncrementor_def sampleChain_def)
  have n1: "\<not> indicatesNonceOrNotFound (ErrorString ''connection refused'')"
    by (simp add: indicatesNonceOrNotFound_def)
  have n2: "indicatesNonceOrNotFound ErrNonceTooLow"
    by (simp add: indicatesNonceOrNotFound_def)
  have ex: "isExpired ?L (sampleTx 40)" by (simp add: sampleLibrary_def)
  from status_error_classification [OF org q1, of "[]"] n1 ex
  have a: "upserts (snd (tryWatchRoutine ?L ?I1 [CheckTick] (sampleTx 40) world0)) =
      [(sampleTx 40)\<lparr>State := TxStateFailed\<rparr>]"
    by (auto simp: world0_logs)
  from status_error_classification [OF org q2, of "[]"] n2
  have b: "upserts (snd (selectCase ?L ?I2 CheckTick (sampleTx 40) world0)) =
      [(sampleTx 40)\<lparr>State := TxStateFailed\<rparr>]"
    by (auto simp: world0_logs)
  from org n1 ex a n2 b show ?thesis by blast
qed

subsection \<open>C4: the timeout persists Failed\<close>

text \<open>
  Claim C4. If the watcher is still in its loop after the cases \<open>ts\<close>, holding \<open>tx'\<close>,
  and no terminal state of the transaction has been persisted, then \<open>tx'\<close> still is the
  watched transaction, and when the timeout fires next the watcher upserts it as
  \<open>Failed\<close> and returns, whatever would become ready afterwards; the goroutine
  finishes, and if the storage accepts the upsert the terminal state is persisted and no
  error is returned. Moreover, when \<open>watchAndIncrement\<close> returns an error and the
  transaction is found expired, the goroutine upserts it as \<open>Failed\<close>.
\<close>

theorem timeout_persists_failed:
  "(watchAndIncrement L i ts tx w = (NextRound tx', w1) \<and>
    \<not> acceptedTerminal i (UniqueID tx) w1 \<longrightarrow>
      UniqueID tx' = UniqueID tx \<and>
      (\<exists>r w2 w3.
         watchAndIncrement L i (ts @ TimeoutTick # rest) tx w = (Return r, w2) \<and>
         upserts w2 = upserts w1 @ [tx'\<lparr>State := TxStateFailed\<rparr>] \<and>
         (UpsertReply (storage i) (length (upserts w1)) (tx'\<lparr>State := TxStateFailed\<rparr>) = None
            \<longrightarrow> r = None \<and> acceptedTerminal i (UniqueID tx) w2) \<and>
         tryWatchRoutine L i (ts @ TimeoutTick # rest) tx w = (Finished, w3))) \<and>
   (watchAndIncrement L i ts tx w = (Return (Some err), w1) \<and> isExpired L tx \<longrightarrow>
      (\<exists>w3. tryWatchRoutine L i ts tx w = (Finished, w3) \<and>
         upserts w3 = upserts w1 @ [tx\<lparr>State := TxStateFailed\<rparr>]))"
proof (intro conjI impI)
  assume a: "watchAndIncrement L i ts tx w = (NextRound tx', w1) \<and>
    \<not> acceptedTerminal i (UniqueID tx) w1"
  with watchAndIncrement_next show "UniqueID tx' = UniqueID tx" by blast
  then have uid: "UniqueID (tx'\<lparr>State := TxStateFailed\<rparr>) = UniqueID tx" by simp
  from a have run: "watchAndIncrement L i (ts @ TimeoutTick # rest) tx w =
      watchAndIncrement L i (TimeoutTick # rest) tx' w1"
    by (simp add: watchAndIncrement_append)
  define w2 where "w2 = w1\<lparr>upserts := upserts w1 @ [tx'\<lparr>State := TxStateFailed\<rparr>]\<rparr>"
  define r where "r = map_option (Wrapped ''failed marking transaction as failed: '')
        (UpsertReply (storage i) (length (upserts w1)) (tx'\<lparr>State := TxStateFailed\<rparr>))"
  have w: "watchAndIncrement L i (ts @ TimeoutTick # rest) tx w = (Return r, w2)"
    by (simp add: run selectCase_def transactionFailed_eq w2_def r_def)
  have acc: "UpsertReply (storage i) (length (upserts w1)) (tx'\<lparr>State := TxStateFailed\<rparr>) = None
      \<Longrightarrow> acceptedTerminal i (UniqueID tx) w2"
    by (rule acceptedTerminal_last [of w2 w1 "tx'\<lparr>State := TxStateFailed\<rparr>"])
       (use uid in \<open>simp_all add: w2_def\<close>)
  have fin: "\<exists>w3. tryWatchRoutine L i (ts @ TimeoutTick # rest) tx w = (Finished, w3)"
    by (auto simp: tryWatchRoutine_def w transactionFailed_eq Let_def split: option.splits)
  from w acc fin show "\<exists>r w2 w3.
         watchAndIncrement L i (ts @ TimeoutTick # rest) tx w = (Return r, w2) \<and>
         upserts w2 = upserts w1 @ [tx'\<lparr>State := TxStateFailed\<rparr>] \<and>
         (UpsertReply (storage i) (length (upserts w1)) (tx'\<lparr>State := TxStateFailed\<rparr>) = None
            \<longrightarrow> r = None \<and> acceptedTerminal i (UniqueID tx) w2) \<and>
         tryWatchRoutine L i (ts @ TimeoutTick # rest) tx w = (Finished, w3)"
    by (auto simp: w2_def r_def)
next
  assume "watchAndIncrement L i ts tx w = (Return (Some err), w1) \<and> isExpired L tx"
  then show "\<exists>w3. tryWatchRoutine L i ts tx w = (Finished, w3) \<and>
         upserts w3 = upserts w1 @ [tx\<lparr>State := TxStateFailed\<rparr>]"
    by (auto simp: tryWatchRoutine_def transactionFailed_eq Let_def logTx_def
          txRemoveWatched_def split: option.splits)
qed

text \<open>
  The theorem on the sample transaction: the timeout after a check and a price increase,
  and a failed status query on an expired transaction.
\<close>

theorem timeout_persists_failed_witness:
  "fst (watchAndIncrement (sampleLibrary False) (sampleIncrementor (Inr 3) pendingChain)
      [CheckTick, IncTick] (sampleTx 40) world0) =
     NextRound ((sampleTx 40)\<lparr>State := TxStatePriceIncreased, LatestTx := ''gasPrice:80''\<rparr>) \<and>
   \<not> acceptedTerminal (sampleIncrementor (Inr 3) pendingChain) (UniqueID (sampleTx 40))
      (snd (watchAndIncrement (sampleLibrary False) (sampleIncrementor (Inr 3) pendingChain)
         [CheckTick, IncTick] (sampleTx 40) world0)) \<and>
   upserts (snd (watchAndIncrement (sampleLibrary False) (sampleIncrementor (Inr 3) pendingChain)
      ([CheckTick, IncTick] @ [TimeoutTick]) (sampleTx 40) world0)) =
     upserts (snd (watchAndIncrement (sampleLibrary False) (sampleIncrementor (Inr 3) pendingChain)
        [CheckTick, IncTick] (sampleTx 40) world0)) @
     [(sampleTx 40)\<lparr>State := TxStatePriceIncreased, LatestTx := ''gasPrice:80'',
        State := TxStateFailed\<rparr>] \<and>
   fst (watchAndIncrement (sampleLibrary True)
      (sampleIncrementor (Inr 3)
         (sampleChain (Inl (ErrorString ''connection refused'')) (Inr 1) None))
      [CheckTick] (sampleTx 40) world0) =
     Return (Some (Wrapped ''failed to get transaction by hash: ''
        (ErrorString ''connection refused''))) \<and>
   isExpired (sampleLibrary True) (sampleTx 40) \<and>
   upserts (snd (tryWatchRoutine (sampleLibrary True)
      (sampleIncrementor (Inr 3)
         (sampleChain (Inl (ErrorString ''connection refused'')) (Inr 1) None))
      [CheckTick] (sampleTx 40) world0)) =
     upserts (snd (watchAndIncrement (sampleLibrary True)
        (sampleIncrementor (Inr 3)
           (sampleChain (Inl (ErrorString ''connection refused'')) (Inr 1) None))
        [CheckTick] (sampleTx 40) world0)) @ [(sampleTx 40)\<lparr>State := TxStateFailed\<rparr>]"
proof -
  let ?L = "sampleLibrary False" and ?I = "sampleIncrementor (Inr 3) pendingChain"
  let ?tx' = "(sampleTx 40)\<lparr>State := TxStatePriceIncreased, LatestTx := ''gasPrice:80''\<rparr>"
  let ?w1 = "snd (watchAndIncrement ?L ?I [CheckTick, IncTick] (sampleTx 40) world0)"
  have f: "fst (watchAndIncrement ?L ?I [CheckTick, IncTick] (sampleTx 40) world0) = NextRound ?tx'"
    by code_simp
  then have run: "watchAndIncrement ?L ?I [CheckTick, IncTick] (sampleTx 40) world0 =
      (NextRound ?tx', ?w1)"
    by (metis prod.collapse)
  have na: "\<not> acceptedTerminal ?I (UniqueID (sampleTx 40)) ?w1"
    by code_simp
  from timeout_persists_failed
    [of ?L ?I "[CheckTick, IncTick]" "sampleTx 40" world0 ?tx' ?w1 "[]", THEN conjunct1]
    run na
  obtain r w2 where "watchAndIncrement ?L ?I ([CheckTick, IncTick] @ [TimeoutTick]) (sampleTx 40)
      world0 = (Return r, w2)" "upserts w2 = upserts ?w1 @ [?tx'\<lparr>State := TxStateFailed\<rparr>]"
    by blast
  then have a: "upserts (snd (watchAndIncrement ?L ?I ([CheckTick, IncTick] @ [TimeoutTick])
      (sampleTx 40) world0)) = upserts ?w1 @ [?tx'\<lparr>State := TxStateFailed\<rparr>]"
    by (simp only: snd_conv)
  let ?Lx = "sampleLibrary True"
  let ?I1 = "sampleIncrementor (Inr 3)
      (sampleChain (Inl (ErrorString ''connection refused'')) (Inr 1) None)"
  let ?err = "Wrapped ''failed to get transaction by hash: '' (ErrorString ''connection refused'')"
  let ?v1 = "snd (watchAndIncrement ?Lx ?I1 [CheckTick] (sampleTx 40) world0)"
  have g: "fst (watchAndIncrement ?Lx ?I1 [CheckTick] (sampleTx 40) world0) = Return (Some ?err)"
    by code_simp
  then have run2: "watchAndIncrement ?Lx ?I1 [CheckTick] (sampleTx 40) world0 =
      (Return (Some ?err), ?v1)"
    by (metis prod.collapse)
  have ex: "isExpired ?Lx (sampleTx 40)" by (simp add: sampleLibrary_def)
  from timeout_persists_failed
    [of ?Lx ?I1 "[CheckTick]" "sampleTx 40" world0 _ ?v1 _ ?err, THEN conjunct2]
    run2 ex
  obtain w3 where "tryWatchRoutine ?Lx ?I1 [CheckTick] (sampleTx 40) world0 = (Finished, w3)"
    "upserts w3 = upserts ?v1 @ [(sampleTx 40)\<lparr>State := TxStateFailed\<rparr>]"
    by blast
  then have b: "upserts (snd (tryWatchRoutine ?Lx ?I1 [CheckTick] (sampleTx 40) world0)) =
      upserts ?v1 @ [(sampleTx 40)\<lparr>State := TxStateFailed\<rparr>]"
    by (simp only: snd_conv)
  from f na a g ex b show ?thesis by blast
qed

subsection \<open>C5: a failure to sign or to send\<close>

text \<open>
  Claim C5. The claim says that when signing or broadcasting fails on an increase tick,
  the transaction is persisted as \<open>Failed\<close> and the watcher exits. The code at a
  concrete input: the chain refuses the broadcast and the storage accepts the upsert of
  \<open>Failed\<close>. \<open>increaseGasPrice\<close> then returns what \<open>transactionFailed\<close> returns, which
  is no error, together with the zero value \<^verbatim>\<open>Transaction{}\<close>; the watcher stays in its
  loop holding that zero value, and when the timeout fires it upserts the zero value as
  \<open>Failed\<close>. The same happens when no signer is registered for the sender.
\<close>

theorem watcher_continues_after_send_failure:
  "fst (watchAndIncrement (sampleLibrary False)
      (sampleIncrementor (Inr 3)
         (sampleChain (Inr True) (Inr 1) (Some (ErrorString ''replacement transaction underpriced''))))
      [IncTick] (sampleTx 40) world0) = NextRound zeroTransaction \<and>
   upserts (snd (watchAndIncrement (sampleLibrary False)
      (sampleIncrementor (Inr 3)
         (sampleChain (Inr True) (Inr 1) (Some (ErrorString ''replacement transaction underpriced''))))
      [IncTick] (sampleTx 40) world0)) = [(sampleTx 40)\<lparr>State := TxStateFailed\<rparr>] \<and>
   fst (tryWatchRoutine (sampleLibrary False)
      (sampleIncrementor (Inr 3)
         (sampleChain (Inr True) (Inr 1) (Some (ErrorString ''replacement transaction underpriced''))))
      [IncTick] (sampleTx 40) world0) = Running \<and>
   upserts (snd (watchAndIncrement (sampleLibrary False)
      (sampleIncrementor (Inr 3)
         (sampleChain (Inr True) (Inr 1) (Some (ErrorString ''replacement transaction underpriced''))))
      [IncTick, TimeoutTick] (sampleTx 40) world0)) =
     [(sampleTx 40)\<lparr>State := TxStateFailed\<rparr>, zeroTransaction\<lparr>State := TxStateFailed\<rparr>] \<and>
   fst (watchAndIncrement (sampleLibrary False)
      ((sampleIncrementor (Inr 3) pendingChain)\<lparr>signers := []\<rparr>)
      [IncTick] (sampleTx 40) world0) = NextRound zeroTransaction"
  by code_simp

subsection \<open>C6: the signer registry\<close>

text \<open>
  Claim C6. With exactly one signer registered, the empty string and the string of the
  zero address (\<open>Hex (HexToAddress [])\<close>) resolve to that signer, whatever address it is
  registered under. A non-empty string whose address is not registered, and to which the
  fallback does not apply, resolves to nothing.
\<close>

theorem getSignerFunc_legacy_fallback: 
  "getSignerFunc L [(a, f)] [] = Some f \<and>
   getSignerFunc L [(a, f)] (Hex L (HexToAddress L [])) = Some f \<and>
   (addr \<noteq> [] \<and> HexToAddress L addr \<notin> fst ` set s \<and>
      \<not> (length s = 1 \<and> addr = Hex L (HexToAddress L []))
      \<longrightarrow> getSignerFunc L s addr = None)"
  by (auto simp: getSignerFunc_def map_of_eq_None_iff)

text \<open>
  The theorem on a registry holding address 1 only, asked for address 3.
\<close>

theorem getSignerFunc_legacy_fallback_witness:
  "''0x0000000000000000000000000000000000000003'' \<noteq> [] \<and>
   HexToAddress (sampleLibrary False) ''0x0000000000000000000000000000000000000003''
     \<notin> fst ` set [(addressOne, sampleSigner)] \<and>
   \<not> (length [(addressOne, sampleSigner)] = 1 \<and>
      ''0x0000000000000000000000000000000000000003'' =
        Hex (sampleLibrary False) (HexToAddress (sampleLibrary False) [])) \<and>
   getSignerFunc (sampleLibrary False) [(addressOne, sampleSigner)]
     ''0x0000000000000000000000000000000000000003'' = None"
proof -
  have h: "''0x0000000000000000000000000000000000000003'' \<noteq> [] \<and>
     HexToAddress (sampleLibrary False) ''0x0000000000000000000000000000000000000003''
       \<notin> fst ` set [(addressOne, sampleSigner)] \<and>
     \<not> (length [(addressOne, sampleSigner)] = 1 \<and>
        ''0x0000000000000000000000000000000000000003'' =
          Hex (sampleLibrary False) (HexToAddress (sampleLibrary False) []))"
    by code_simp
  from getSignerFunc_legacy_fallback
    [of "sampleLibrary False" addressOne sampleSigner
        "''0x0000000000000000000000000000000000000003''" "[(addressOne, sampleSigner)]"] h
  show ?thesis by blast
qed

subsection \<open>C7: CanSign\<close>

text \<open>
  Claim C7, as stated, fails: with a single signer, registered for address 1, \<open>CanSign\<close>
  answers true for the zero address, for which no signer is registered.
\<close>

theorem CanSign_zero_address_counterexample:
  "CanSign (sampleLibrary False) (sampleIncrementor (Inr 3) pendingChain) zeroAddress \<and>
   zeroAddress \<notin> fst ` set (signers (sampleIncrementor (Inr 3) pendingChain))"
  by code_simp

text \<open>
  Claim C7, amended. For an address \<open>a\<close> that \<open>Hex\<close> and \<open>HexToAddress\<close> take back to
  itself (as they do the zero address) and whose string is not empty, \<open>CanSign a\<close> is
  true if and only if a signer is registered for exactly \<open>a\<close>, or exactly one signer is
  registered and \<open>a\<close> is the zero address.
\<close>

theorem CanSign_iff_registered_or_fallback:
  assumes rt: "HexToAddress L (Hex L a) = a"
    and rz: "HexToAddress L (Hex L (HexToAddress L [])) = HexToAddress L []"
    and ne: "Hex L a \<noteq> []"
  shows "CanSign L i a \<longleftrightarrow>
     a \<in> fst ` set (signers i) \<or> (length (signers i) = 1 \<and> a = HexToAddress L [])"
proof -
  have eqz: "Hex L a = Hex L (HexToAddress L []) \<longleftrightarrow> a = HexToAddress L []"
    using rt rz by metis
  show ?thesis
  proof (cases "length (signers i) = 1 \<and> a = HexToAddress L []")
    case True
    then obtain b f where "signers i = [(b, f)]"
      by (cases "signers i") (auto simp: length_Suc_conv)
    with True show ?thesis
      by (simp add: CanSign_def getSignerFunc_def)
  next
    case False
    then have "getSignerFunc L (signers i) (Hex L a) = map_of (signers i) a"
      using ne eqz rt by (auto simp: getSignerFunc_def)
    moreover have "(map_of (signers i) a \<noteq> None) = (a \<in> fst ` set (signers i))"
      by (simp add: map_of_eq_None_iff)
    ultimately show ?thesis using False
      by (cases "map_of (signers i) a") (auto simp: CanSign_def)
  qed
qed

text \<open>
  The theorem on address 1, which is registered.
\<close>

theorem CanSign_iff_registered_or_fallback_witness:
  "HexToAddress (sampleLibrary False) (Hex (sampleLibrary False) addressOne) = addressOne \<and>
   Hex (sampleLibrary False) addressOne \<noteq> [] \<and>
   CanSign (sampleLibrary False) (sampleIncrementor (Inr 3) pendingChain) addressOne"
proof -
  have rt: "HexToAddress (sampleLibrary False) (Hex (sampleLibrary False) addressOne) = addressOne"
    by code_simp
  have rz: "HexToAddress (sampleLibrary False)
      (Hex (sampleLibrary False) (HexToAddress (sampleLibrary False) [])) =
      HexToAddress (sampleLibrary False) []"
    by code_simp
  have ne: "Hex (sampleLibrary False) addressOne \<noteq> []"
    by code_simp
  have reg: "addressOne \<in> fst ` set (signers (sampleIncrementor (Inr 3) pendingChain))"
    by code_simp
  from CanSign_iff_registered_or_fallback [OF rt rz ne, of "sampleIncrementor (Inr 3) pendingChain"]
    reg rt ne
  show ?thesis by blast
qed

subsection \<open>C8: InsertInitial\<close>

text \<open>
  Claim C8. If the options are invalid, \<open>InsertInitial\<close> returns an error and leaves the
  world as it was: no upsert, no watcher. If they are valid and the transaction can be
  encoded, it makes exactly one upsert, of a record in state \<open>Pending\<close> whose
  \<open>LatestTx\<close> is the encoding of the transaction supplied, returns the answer of the
  storage, and changes nothing else: it starts no watcher.
\<close>

theorem InsertInitial_validates_then_upserts:
  "(validate opts \<noteq> None \<longrightarrow>
      (\<exists>err. InsertInitial L i uid tx opts sender w = (Some err, w))) \<and>
   (validate opts = None \<and> MarshalJSON L tx = Inr blob \<longrightarrow>
      (\<exists>rec. InsertInitial L i uid tx opts sender w =
           (UpsertReply (storage i) (length (upserts w)) rec, w\<lparr>upserts := upserts w @ [rec]\<rparr>) \<and>
         State rec = TxStatePending \<and> LatestTx rec = blob \<and> Opts rec = opts \<and>
         UniqueID rec = uid \<and> SenderAddressHex rec = Hex L sender))"
  by (auto simp: InsertInitial_def newTransaction_def UpsertIncrementorTransaction_def)

text \<open>
  The theorem on the zero options, which are invalid, and on the sample options.
\<close>

theorem InsertInitial_validates_then_upserts_witness:
  "validate zeroOpts \<noteq> None \<and>
   snd (InsertInitial (sampleLibrary False) (sampleIncrementor (Inr 3) pendingChain) ''tx-1''
      (sampleEthTx 40) zeroOpts addressOne world0) = world0 \<and>
   validate sampleOpts = None \<and>
   MarshalJSON (sampleLibrary False) (sampleEthTx 40) = Inr ''gasPrice:40'' \<and>
   length (upserts (snd (InsertInitial (sampleLibrary False) (sampleIncrementor (Inr 3) pendingChain)
      ''tx-1'' (sampleEthTx 40) sampleOpts addressOne world0))) = 1"
proof -
  let ?L = "sampleLibrary False" and ?I = "sampleIncrementor (Inr 3) pendingChain"
  have inv: "validate zeroOpts \<noteq> None" by code_simp
  have val: "validate sampleOpts = None" by code_simp
  have enc: "MarshalJSON ?L (sampleEthTx 40) = Inr ''gasPrice:40''" by code_simp
  from InsertInitial_validates_then_upserts
    [of zeroOpts ?L ?I "''tx-1''" "sampleEthTx 40" addressOne world0, THEN conjunct1] inv
  have a: "snd (InsertInitial ?L ?I ''tx-1'' (sampleEthTx 40) zeroOpts addressOne world0) = world0"
    by auto
  from InsertInitial_validates_then_upserts
    [of sampleOpts ?L ?I "''tx-1''" "sampleEthTx 40" addressOne world0 "''gasPrice:40''",
     THEN conjunct2] val enc
  obtain rec where "InsertInitial ?L ?I ''tx-1'' (sampleEthTx 40) sampleOpts addressOne world0 =
      (UpsertReply (storage ?I) (length (upserts world0)) rec,
       world0\<lparr>upserts := upserts world0 @ [rec]\<rparr>)"
    by blast
  then have b: "length (upserts (snd (InsertInitial ?L ?I ''tx-1'' (sampleEthTx 40) sampleOpts
      addressOne world0))) = 1"
    by (simp add: world0_logs)
  from inv val enc a b show ?thesis by blast
qed

subsection \<open>C9: CanQueue\<close>

text \<open>
  Claim C9. When the storage answers the queue length \<open>len\<close>, \<open>CanQueue\<close> returns
  \<open>len < MaxQueuePerSigner\<close> and no error, so it is false exactly when
  \<open>len \<ge> MaxQueuePerSigner\<close>; when the storage answers with an error, \<open>CanQueue\<close>
  returns false together with that error.
\<close>

theorem CanQueue_below_limit:
  "(SenderQueueReply (storage i) (queueCalls w) (Hex L sender) = Inr len \<longrightarrow>
      fst (CanQueue L i sender w) = (len < MaxQueuePerSigner (cfg i), None) \<and>
      (fst (fst (CanQueue L i sender w)) = False \<longleftrightarrow> len \<ge> MaxQueuePerSigner (cfg i))) \<and>
   (SenderQueueReply (storage i) (queueCalls w) (Hex L sender) = Inl err \<longrightarrow>
      fst (CanQueue L i sender w) = (False, Some err))"
  by (auto simp: CanQueue_def GetIncrementorSenderQueue_def)

text \<open>
  The theorem with the limit 5 on the queue lengths 3 and 5 and on a failing storage.
\<close>

theorem CanQueue_below_limit_witness:
  "fst (CanQueue (sampleLibrary False) (sampleIncrementor (Inr 3) pendingChain) addressOne world0)
     = (True, None) \<and>
   fst (CanQueue (sampleLibrary False) (sampleIncrementor (Inr 5) pendingChain) addressOne world0)
     = (False, None) \<and>
   fst (CanQueue (sampleLibrary False)
          (sampleIncrementor (Inl (ErrorString ''connection refused'')) pendingChain)
          addressOne world0)
     = (False, Some (ErrorString ''connection refused''))"
proof -
  have a: "SenderQueueReply (storage (sampleIncrementor (Inr 3) pendingChain)) (queueCalls world0)
       (Hex (sampleLibrary False) addressOne) = Inr 3"
    by (simp add: sampleIncrementor_def sampleStorage_def)
  have b: "SenderQueueReply (storage (sampleIncrementor (Inr 5) pendingChain)) (queueCalls world0)
       (Hex (sampleLibrary False) addressOne) = Inr 5"
    by (simp add: sampleIncrementor_def sampleStorage_def)
  have c: "SenderQueueReply
       (storage (sampleIncrementor (Inl (ErrorString ''connection refused'')) pendingChain))
       (queueCalls world0) (Hex (sampleLibrary False) addressOne)
       = Inl (ErrorString ''connection refused'')"
    by (simp add: sampleIncrementor_def sampleStorage_def)
  have m: "MaxQueuePerSigner (cfg (sampleIncrementor q pendingChain)) = 5" for q
    by (simp add: sampleIncrementor_def)
  from CanQueue_below_limit [of "sampleIncrementor (Inr 3) pendingChain" world0
      "sampleLibrary False" addressOne 3] a
  have "fst (CanQueue (sampleLibrary False) (sampleIncrementor (Inr 3) pendingChain) addressOne world0)
     = (True, None)" by (simp add: m)
  moreover
  from CanQueue_below_limit [of "sampleIncrementor (Inr 5) pendingChain" world0
      "sampleLibrary False" addressOne 5] b
  have "fst (CanQueue (sampleLibrary False) (sampleIncrementor (Inr 5) pendingChain) addressOne world0)
     = (False, None)" by (simp add: m)
  moreover
  from CanQueue_below_limit [of "sampleIncrementor (Inl (ErrorString ''connection refused'')) pendingChain"
      world0 "sampleLibrary False" addressOne _ "ErrorString ''connection refused''"] c
  have "fst (CanQueue (sampleLibrary False)
          (sampleIncrementor (Inl (ErrorString ''connection refused'')) pendingChain)
          addressOne world0)
     = (False, Some (ErrorString ''connection refused''))" by blast
  ultimately show ?thesis by blast
qed

subsection \<open>C10: a reverted receipt\<close>

text \<open>
  Claim C10. On a check tick where the transaction is decoded, the chain reports it as
  not pending and the receipt has a status other than successful, \<open>getTxStatus\<close>
  returns \<open>StatusFailed\<close> without an error, and the round makes neither an upsert nor a
  broadcast and does not return: the watcher goes on with the same transaction, through
  whatever becomes ready next.
\<close>

theorem reverted_receipt_keeps_watching:
  assumes org: "getLatestTx L tx = Inr org"
      and bh: "ByHashReply (bc i) (byHashCalls w) (ChainID tx) (Hash L org) = Inr False"
      and rc: "ReceiptReply (bc i) (receiptCalls w) (ChainID tx) (Hash L org) = Inr st"
      and st: "st \<noteq> ReceiptStatusSuccessful"
  shows "\<exists>w1. getTxStatus L i tx w = ((StatusFailed, None), w1) \<and>
           selectCase L i CheckTick tx w = (NextRound tx, w1) \<and>
           upserts w1 = upserts w \<and> broadcasts w1 = broadcasts w \<and>
           watchAndIncrement L i (CheckTick # ts) tx w = watchAndIncrement L i ts tx w1 \<and>
           tryWatchRoutine L i [CheckTick] tx w = (Running, w1)"
proof -
  have "fst (getTxStatus L i tx w) = (StatusFailed, None)"
    using org bh rc st
    by (simp add: getTxStatus_def TransactionByHash_def TransactionReceipt_def
          bcTxStatusFromReceipt_def Let_def)
  then obtain w1 where g: "getTxStatus L i tx w = ((StatusFailed, None), w1)"
    by (cases "getTxStatus L i tx w") auto
  have s: "selectCase L i CheckTick tx w = (NextRound tx, w1)"
    using g by (simp add: selectCase_def)
  from getTxStatus_frame [OF g] g s show ?thesis
    by (simp add: tryWatchRoutine_def)
qed

text \<open>
  The theorem on the sample transaction with a receipt of status 0.
\<close>

theorem reverted_receipt_keeps_watching_witness:
  "getLatestTx (sampleLibrary False) (sampleTx 40) = Inr (sampleEthTx 40) \<and>
   (0::nat) \<noteq> ReceiptStatusSuccessful \<and>
   fst (selectCase (sampleLibrary False)
     (sampleIncrementor (Inr 3) (sampleChain (Inr False) (Inr 0) None))
     CheckTick (sampleTx 40) world0) = NextRound (sampleTx 40) \<and>
   upserts (snd (selectCase (sampleLibrary False)
     (sampleIncrementor (Inr 3) (sampleChain (Inr False) (Inr 0) None))
     CheckTick (sampleTx 40) world0)) = []"
proof -
  let ?L = "sampleLibrary False"
  let ?I = "sampleIncrementor (Inr 3) (sampleChain (Inr False) (Inr 0) None)"
  have org: "getLatestTx ?L (sampleTx 40) = Inr (sampleEthTx 40)" by code_simp
  have bh: "ByHashReply (bc ?I) (byHashCalls world0) (ChainID (sampleTx 40))
      (Hash ?L (sampleEthTx 40)) = Inr False"
    by (simp add: sampleIncrementor_def sampleChain_def)
  have rc: "ReceiptReply (bc ?I) (receiptCalls world0) (ChainID (sampleTx 40))
      (Hash ?L (sampleEthTx 40)) = Inr 0"
    by (simp add: sampleIncrementor_def sampleChain_def)
  have st: "(0::nat) \<noteq> ReceiptStatusSuccessful" by (simp add: ReceiptStatusSuccessful_def)
  from reverted_receipt_keeps_watching [OF org bh rc st, of "[]"] obtain w1 where
    "selectCase ?L ?I CheckTick (sampleTx 40) world0 = (NextRound (sampleTx 40), w1)"
    "upserts w1 = upserts world0" by blast
  then have "fst (selectCase ?L ?I CheckTick (sampleTx 40) world0) = NextRound (sampleTx 40) \<and>
     upserts (snd (selectCase ?L ?I CheckTick (sampleTx 40) world0)) = []"
    by (simp add: world0_logs)
  with org st show ?thesis by blast
qed

end
